theory Spec2Isabelle
  imports Complex_Main
begin

section \<open>Washing-machine controller (src/main.cpp): data model\<close>

text \<open>
  The controller is a single-threaded polling loop over global variables and mbed
  peripheral objects. The model is explicit state passing over one record that holds
  the program's globals, the last value written to each output peripheral, and the
  sequence of everything the program has emitted (console lines, PWM and pin writes,
  busy waits), oldest first.

  Numbers. C++ \<open>int\<close> is modelled as \<open>int\<close>: the only counters that grow are the two
  door counters, by one per poll of at least 100 ms, so the 32-bit range is not reached
  in less than years of identical readings (beyond it C++ leaves the behaviour
  undefined). C++ \<open>float\<close> is modelled by the real number a finite binary32 value
  denotes. Comparisons of floats are exact, so every branch below that only compares a
  reading with a constant is modelled exactly; the constants are the exact values of the
  binary32 literals. NaN and the infinities are not represented (an \<open>AnalogIn\<close> read is
  finite).
\<close>

datatype SystemState = OFF | IDLE | RUNNING

subsection \<open>Constants (lines 13-27, 49)\<close>

definition FREQUENCY :: real where "FREQUENCY = 100"

text \<open>\<open>0.1f\<close>: the binary32 value nearest to 1/10.\<close>
definition FSR_THRESHOLD :: real where "FSR_THRESHOLD = 13421773 / 134217728"

definition LDR_THRESHOLD :: real where "LDR_THRESHOLD = 15"
definition TEMP_THRESHOLD :: real where "TEMP_THRESHOLD = 5"
definition DOOR_OPEN_THRESHOLD :: real where "DOOR_OPEN_THRESHOLD = 40"
definition TEMP_SENSOR_CALIBRATION :: real where "TEMP_SENSOR_CALIBRATION = 1 / 2"
definition DEBOUNCE_COUNT :: int where "DEBOUNCE_COUNT = 3"
definition NUM_SAMPLES :: int where "NUM_SAMPLES = 5"

text \<open>
  \<open>0.2f\<close>, \<open>0.4f\<close>, \<open>0.6f\<close>, \<open>0.7f\<close>: the binary32 values nearest to the decimal
  literals. The first three lie just above the decimal, \<open>0.7f\<close> just below it.
\<close>
definition LOAD_LIGHT :: real where "LOAD_LIGHT = 13421773 / 67108864"
definition LOAD_MEDIUM :: real where "LOAD_MEDIUM = 13421773 / 33554432"
definition LOAD_HEAVY :: real where "LOAD_HEAVY = 5033165 / 8388608"
definition LOAD_OVERLOAD :: real where "LOAD_OVERLOAD = 11744051 / 16777216"

definition hexDis :: "int list" where
  "hexDis = [0x3F, 0x06, 0x5B, 0x4F, 0x66, 0x6D, 0x7D, 0x07,
             0x7F, 0x6F, 0x77, 0x7C, 0x39, 0x5E, 0x79, 0x71]"

subsection \<open>Emitted events\<close>

text \<open>One constructor per \<open>printf\<close> template of the source, with its arguments.\<close>

datatype log_line =
    SystemStarting
  | SystemOnLine
  | SystemOffLine
  | CountdownLine int
  | CycleCompleteLine
  | SettingsLine int int int
  | SensorLine real int bool
  | OverloadWarningLine
  | LoadAcceptableLine
  | CannotStartDoorLine
  | CannotStartOverloadLine
  | StartingCycleLine int int int
  | CycleEndedLine
  | CycleAlreadyInProgressLine

datatype pwm_pin = BUZZER | RGB_RED | RGB_GREEN | RGB_BLUE

datatype event =
    Printf log_line
  | PwmPeriod pwm_pin real
  | PwmWrite pwm_pin real
  | WaitUs int
  | SegDisWrite int
  | RedLedWrite int

subsection \<open>State: the globals of lines 52-70 and the output peripherals\<close>

record machine =
  systemState :: SystemState
  doorOpenWarningActive :: bool
  overloadWarningActive :: bool
  lastPowerState :: int
  lastStartState :: int
  prevFsr :: real
  prevLdr :: real
  prevTempActual :: real
  prevRpm :: int
  prevTemp :: int
  prevTime :: int
  doorOpenCount :: int
  doorClosedCount :: int
  segDis :: int
  rgbRed :: real
  rgbGreen :: real
  rgbBlue :: real
  redLED :: int
  fault :: bool
  trace :: "event list"

text \<open>
  \<open>segDis\<close>, \<open>rgbRed\<close>, \<open>rgbGreen\<close>, \<open>rgbBlue\<close> and \<open>redLED\<close> hold the value last
  written to the peripheral of that name. \<open>fault\<close> records that \<open>hexDis\<close> was indexed
  outside its 16 entries, which C++ leaves undefined; it is never cleared.
\<close>

definition initial_machine :: machine where
  "initial_machine = \<lparr>
     systemState = OFF,
     doorOpenWarningActive = False,
     overloadWarningActive = False,
     lastPowerState = 0,
     lastStartState = 0,
     prevFsr = - 1,
     prevLdr = - 1,
     prevTempActual = - 1,
     prevRpm = - 1,
     prevTemp = - 1,
     prevTime = - 1,
     doorOpenCount = 0,
     doorClosedCount = 0,
     segDis = 0,
     rgbRed = 0,
     rgbGreen = 0,
     rgbBlue = 0,
     redLED = 0,
     fault = False,
     trace = [] \<rparr>"

subsection \<open>Inputs\<close>

text \<open>
  Every peripheral read of one pass through \<open>handleButtons\<close>, in source order: the
  power button at lines 294 and 303, the start button at lines 308 and 346
  (\<open>DigitalIn::read\<close> returns 0 or 1; 0 is pressed), and the three potentiometers at
  lines 324-326, which are read only when a cycle starts.
\<close>

record button_reads =
  powerButton_294 :: int
  powerButton_303 :: int
  startPauseButton_308 :: int
  startPauseButton_346 :: int
  potRPM_324 :: real
  potTemp_325 :: real
  potTime_326 :: real

text \<open>
  What \<open>AnalogIn::read\<close> returns: the input voltage as a fraction of the reference,
  between 0 and 1. \<open>fraction\<close> is the number read, and \<open>analog x\<close> is the read
  nearest to \<open>x\<close>.
\<close>

typedef analog_read = "{x::real. 0 \<le> x \<and> x \<le> 1}"
  morphisms fraction Abs_analog_read
  by (rule exI [of _ 0]) simp

setup_lifting type_definition_analog_read

lift_definition analog :: "real \<Rightarrow> analog_read" is "\<lambda>x. max 0 (min 1 x)"
  by simp

text \<open>
  Every peripheral read of one pass through \<open>readAndProcessSensors\<close>: the three
  potentiometers (lines 201-205), the three values returned by \<open>readAveragedSensor\<close>
  (lines 211-213, the mean of five samples taken 5 ms apart; the sampling itself and
  its waits are not modelled), and the two direct reads of the light sensor made by
  \<open>isDoorOpen\<close> at lines 238 and 248, which are not scaled.
\<close>

record sensor_reads =
  potRPM :: real
  potTemp :: real
  potTime :: real
  fsrAveraged :: real
  ldrAveraged :: real
  tempAveraged :: real
  ldrSensor_238 :: analog_read
  ldrSensor_248 :: analog_read

section \<open>C++ arithmetic\<close>

text \<open>Conversion of a float to \<open>int\<close> discards the fraction (rounds toward zero).\<close>

definition int_of_float :: "real \<Rightarrow> int" where
  "int_of_float x = (if 0 \<le> x then \<lfloor>x\<rfloor> else \<lceil>x\<rceil>)"

text \<open>\<open>roundf\<close> rounds to the nearest integer, halfway cases away from zero.\<close>

definition roundf :: "real \<Rightarrow> real" where
  "roundf x = (if 0 \<le> x then of_int \<lfloor>x + 1 / 2\<rfloor> else of_int \<lceil>x - 1 / 2\<rceil>)"

text \<open>Integer \<open>/\<close> and \<open>%\<close> truncate toward zero; the remainder has the dividend's sign.\<close>

definition c_div :: "int \<Rightarrow> int \<Rightarrow> int" where
  "c_div a b = sgn a * sgn b * (\<bar>a\<bar> div \<bar>b\<bar>)"

definition c_rem :: "int \<Rightarrow> int \<Rightarrow> int" where
  "c_rem a b = a - b * c_div a b"

section \<open>Output primitives\<close>

definition emit :: "event \<Rightarrow> machine \<Rightarrow> machine" where
  "emit e s = s\<lparr>trace := trace s @ [e]\<rparr>"

definition printf :: "log_line \<Rightarrow> machine \<Rightarrow> machine" where
  "printf l s = emit (Printf l) s"

definition wait_us :: "int \<Rightarrow> machine \<Rightarrow> machine" where
  "wait_us us s = emit (WaitUs us) s"

definition segDis_write :: "int \<Rightarrow> machine \<Rightarrow> machine" where
  "segDis_write v s = emit (SegDisWrite v) (s\<lparr>segDis := v\<rparr>)"

definition redLED_write :: "int \<Rightarrow> machine \<Rightarrow> machine" where
  "redLED_write v s = emit (RedLedWrite v) (s\<lparr>redLED := v\<rparr>)"

definition rgbRed_write :: "real \<Rightarrow> machine \<Rightarrow> machine" where
  "rgbRed_write v s = emit (PwmWrite RGB_RED v) (s\<lparr>rgbRed := v\<rparr>)"

definition rgbGreen_write :: "real \<Rightarrow> machine \<Rightarrow> machine" where
  "rgbGreen_write v s = emit (PwmWrite RGB_GREEN v) (s\<lparr>rgbGreen := v\<rparr>)"

definition rgbBlue_write :: "real \<Rightarrow> machine \<Rightarrow> machine" where
  "rgbBlue_write v s = emit (PwmWrite RGB_BLUE v) (s\<lparr>rgbBlue := v\<rparr>)"

text \<open>Lines 88-92.\<close>

definition setRGB :: "real \<Rightarrow> real \<Rightarrow> real \<Rightarrow> machine \<Rightarrow> machine" where
  "setRGB r g b s = rgbBlue_write b (rgbGreen_write g (rgbRed_write r s))"

text \<open>Lines 95-100.\<close>

definition playBeep :: "real \<Rightarrow> int \<Rightarrow> machine \<Rightarrow> machine" where
  "playBeep freq duration_ms s =
     emit (PwmWrite BUZZER 0)
       (wait_us (duration_ms * 1000)
         (emit (PwmWrite BUZZER (1 / 2))
           (emit (PwmPeriod BUZZER (1 / freq)) s)))"

section \<open>Classification\<close>

text \<open>Lines 103-115.\<close>

definition setLoadLevelColor :: "real \<Rightarrow> machine \<Rightarrow> machine" where
  "setLoadLevelColor load s =
     (if load < LOAD_LIGHT then setRGB 0 1 0 s
      else if load < LOAD_MEDIUM then setRGB (1 / 2) 1 0 s
      else if load < LOAD_HEAVY then setRGB 1 1 0 s
      else if load < LOAD_OVERLOAD then setRGB 1 (1 / 2) 0 s
      else setRGB 1 0 0 s)"

text \<open>Lines 147-149.\<close>

definition hasSignificantChange :: "real \<Rightarrow> real \<Rightarrow> real \<Rightarrow> bool" where
  "hasSignificantChange newVal prevVal threshold =
     (prevVal < 0 \<or> \<bar>newVal - prevVal\<bar> \<ge> threshold)"

text \<open>
  Lines 152-154. The argument is the value \<open>ldrSensor\<close> converts to, that is, a direct
  unscaled read of the light sensor.
\<close>

definition isDoorOpen :: "real \<Rightarrow> bool" where
  "isDoorOpen ldrSensor = (ldrSensor > DOOR_OPEN_THRESHOLD)"

text \<open>Lines 157-159.\<close>

definition isOverloaded :: "real \<Rightarrow> bool" where
  "isOverloaded load = (load > LOAD_OVERLOAD)"

section \<open>Display, countdown and power\<close>

text \<open>
  Lines 162-168. \<open>value % 10\<close> is negative for a negative \<open>value\<close>, and the read of
  \<open>hexDis\<close> is then out of bounds.
\<close>

definition updateDisplay :: "int \<Rightarrow> machine \<Rightarrow> machine" where
  "updateDisplay val s =
     (if systemState s = OFF then segDis_write 0x00 s
      else (let idx = c_rem val 10 in
            if 0 \<le> idx \<and> idx < 16 then segDis_write (hexDis ! nat idx) s
            else s\<lparr>fault := True\<rparr>))"

text \<open>The loop of lines 131-134, from \<open>i\<close> down to 1.\<close>

function countdown_loop :: "int \<Rightarrow> machine \<Rightarrow> machine" where
  "countdown_loop i s =
     (if i > 0 then countdown_loop (i - 1) (printf (CountdownLine i) (updateDisplay i s))
      else s)"
  by pat_completeness auto
termination
  by (relation "measure (\<lambda>(i, s). nat i)") auto

text \<open>The loop of lines 140-143, from \<open>i\<close> up to 2.\<close>

function completion_beeps :: "int \<Rightarrow> machine \<Rightarrow> machine" where
  "completion_beeps i s =
     (if i < 3 then completion_beeps (i + 1) (wait_us 200000 (playBeep 1000 200 s))
      else s)"
  by pat_completeness auto
termination
  by (relation "measure (\<lambda>(i, s). nat (3 - i))") auto

text \<open>Lines 128-144.\<close>

definition runCycleCountdown :: "int \<Rightarrow> machine \<Rightarrow> machine" where
  "runCycleCountdown minutes s =
     (let steps = c_div minutes 10;
          s = countdown_loop steps s;
          s = updateDisplay 0 s;
          s = printf CycleCompleteLine s
      in completion_beeps 0 s)"

text \<open>Lines 171-180.\<close>

definition powerOn :: "machine \<Rightarrow> machine" where
  "powerOn s =
     (let s = s\<lparr>systemState := IDLE\<rparr>;
          s = playBeep 600 100 s;
          s = printf SystemOnLine s;
          s = emit (PwmPeriod RGB_RED (1 / FREQUENCY)) s;
          s = emit (PwmPeriod RGB_GREEN (1 / FREQUENCY)) s
      in emit (PwmPeriod RGB_BLUE (1 / FREQUENCY)) s)"

text \<open>Lines 183-196.\<close>

definition powerOff :: "machine \<Rightarrow> machine" where
  "powerOff s =
     (let s = s\<lparr>systemState := OFF\<rparr>;
          s = playBeep 600 100 s;
          s = printf SystemOffLine s;
          s = setRGB 0 0 0 s;
          s = redLED_write 0 s;
          s = updateDisplay 0 s
      in s\<lparr>doorOpenWarningActive := False, overloadWarningActive := False\<rparr>)"

section \<open>Settings derived from the potentiometers\<close>

text \<open>
  The expressions of lines 201 and 324, and of lines 202 and 325. The binary32 rounding
  of the product and the sum is not modelled; the two values are only printed and
  compared with their previous values.
\<close>

definition rpmSetting :: "real \<Rightarrow> int" where
  "rpmSetting pot = int_of_float (pot * 7 + 2) * 100"

definition tempSetting :: "real \<Rightarrow> int" where
  "tempSetting pot = int_of_float (pot * 4 + 2) * 10"

text \<open>
  Lines 205-208: the minutes shown while idle. Multiplying a binary32 value by 8 is
  exact, and so is \<open>roundf\<close>, so this is the value the C++ computes.
\<close>

definition timeSetting :: "real \<Rightarrow> int" where
  "timeSetting potVal =
     (let time = int_of_float (roundf (potVal * 8)) + 1;
          time = (if time > 9 then 9 else time)
      in time * 10)"

text \<open>Lines 326-327: the minutes a cycle is started with.\<close>

definition startTime :: "real \<Rightarrow> int" where
  "startTime potVal =
     (let time = (int_of_float (roundf (potVal * 8)) + 1) * 10
      in if time > 90 then 90 else time)"

section \<open>Sensor processing (lines 199-289)\<close>

text \<open>Lines 216-219.\<close>

definition showTimeSetting :: "int \<Rightarrow> machine \<Rightarrow> machine" where
  "showTimeSetting time s =
     (if systemState s = IDLE then updateDisplay (c_div time 10) s else s)"

text \<open>Lines 221-230.\<close>

definition reportSettings :: "int \<Rightarrow> int \<Rightarrow> int \<Rightarrow> machine \<Rightarrow> machine" where
  "reportSettings rpm temp time s =
     (if hasSignificantChange (of_int rpm) (of_int (prevRpm s)) 50 \<or>
         hasSignificantChange (of_int temp) (of_int (prevTemp s)) 5 \<or>
         hasSignificantChange (of_int time) (of_int (prevTime s)) 5
      then (printf (SettingsLine rpm temp time) s)
             \<lparr>prevRpm := rpm, prevTemp := temp, prevTime := time\<rparr>
      else s)"

text \<open>Lines 232-245. \<open>ldrNow\<close> is the read made by \<open>isDoorOpen\<close> at line 238.\<close>

definition reportSensors :: "real \<Rightarrow> real \<Rightarrow> real \<Rightarrow> real \<Rightarrow> machine \<Rightarrow> machine" where
  "reportSensors fsr tempActual ldr ldrNow s =
     (if hasSignificantChange fsr (prevFsr s) FSR_THRESHOLD \<or>
         hasSignificantChange tempActual (prevTempActual s) TEMP_THRESHOLD \<or>
         hasSignificantChange ldr (prevLdr s) LDR_THRESHOLD
      then (let displayTemp = int_of_float (roundf tempActual);
                doorIsOpen = isDoorOpen ldrNow
            in (printf (SensorLine fsr displayTemp doorIsOpen) s)
                 \<lparr>prevFsr := fsr, prevTempActual := tempActual, prevLdr := ldr\<rparr>)
      else s)"

text \<open>
  Lines 247-268: the door flag. \<open>currentDoorReading\<close> is the result of \<open>isDoorOpen\<close>
  at line 248.
\<close>

definition doorState :: "bool \<Rightarrow> machine \<Rightarrow> machine" where
  "doorState currentDoorReading s =
     (let s = (if currentDoorReading
               then s\<lparr>doorOpenCount := doorOpenCount s + 1, doorClosedCount := 0\<rparr>
               else s\<lparr>doorClosedCount := doorClosedCount s + 1, doorOpenCount := 0\<rparr>);
          doorCurrentlyOpen =
            (if doorOpenWarningActive s then doorClosedCount s < DEBOUNCE_COUNT
             else doorOpenCount s \<ge> DEBOUNCE_COUNT)
      in if doorCurrentlyOpen \<noteq> doorOpenWarningActive s
         then (let s = s\<lparr>doorOpenWarningActive := doorCurrentlyOpen\<rparr>
               in if doorCurrentlyOpen \<and> systemState s = IDLE then playBeep 700 200 s
                  else s)
         else s)"

text \<open>Lines 270-273.\<close>

definition doorLED :: "machine \<Rightarrow> machine" where
  "doorLED s =
     (if systemState s = IDLE
      then redLED_write (if doorOpenWarningActive s then 1 else 0) s
      else s)"

text \<open>Lines 278-288: the overload flag.\<close>

definition overloadState :: "real \<Rightarrow> machine \<Rightarrow> machine" where
  "overloadState fsr s =
     (let currentlyOverloaded = isOverloaded fsr
      in if currentlyOverloaded \<noteq> overloadWarningActive s
         then (let s = s\<lparr>overloadWarningActive := currentlyOverloaded\<rparr>
               in if currentlyOverloaded
                  then playBeep 500 100 (printf OverloadWarningLine s)
                  else printf LoadAcceptableLine s)
         else s)"

text \<open>Lines 199-289, the blocks above in source order.\<close>

definition readAndProcessSensors :: "sensor_reads \<Rightarrow> machine \<Rightarrow> machine" where
  "readAndProcessSensors r s =
     (let rpm = rpmSetting (potRPM r);
          temp = tempSetting (potTemp r);
          time = timeSetting (potTime r);
          fsr = fsrAveraged r;
          ldr = ldrAveraged r;
          tempActual = tempAveraged r * TEMP_SENSOR_CALIBRATION;
          s = showTimeSetting time s;
          s = reportSettings rpm temp time s;
          s = reportSensors fsr tempActual ldr (fraction (ldrSensor_238 r)) s;
          s = doorState (isDoorOpen (fraction (ldrSensor_248 r))) s;
          s = doorLED s;
          s = setLoadLevelColor fsr s
      in overloadState fsr s)"

section \<open>Buttons (lines 292-349)\<close>

text \<open>Lines 293-305.\<close>

definition handlePowerButton :: "button_reads \<Rightarrow> machine \<Rightarrow> machine" where
  "handlePowerButton b s =
     (let s = (if powerButton_294 b = 0 \<and> lastPowerState s = 1
               then (let s = (if systemState s = OFF then powerOn s else powerOff s)
                     in s\<lparr>lastPowerState := 0\<rparr>)
               else s)
      in if powerButton_303 b = 1 then s\<lparr>lastPowerState := 1\<rparr> else s)"

text \<open>Lines 322-339: the branch that starts a cycle.\<close>

definition startCycle :: "button_reads \<Rightarrow> machine \<Rightarrow> machine" where
  "startCycle b s =
     (let rpm = rpmSetting (potRPM_324 b);
          temp = tempSetting (potTemp_325 b);
          time = startTime (potTime_326 b);
          s = printf (StartingCycleLine rpm temp time) s;
          s = s\<lparr>systemState := RUNNING\<rparr>;
          s = playBeep 700 100 s;
          s = runCycleCountdown time s;
          s = s\<lparr>systemState := IDLE\<rparr>
      in printf CycleEndedLine s)"

text \<open>Lines 307-348.\<close>

definition handleStartButton :: "button_reads \<Rightarrow> machine \<Rightarrow> machine" where
  "handleStartButton b s =
     (let s = (if startPauseButton_308 b = 0 \<and> lastStartState s = 1 \<and> systemState s \<noteq> OFF
               then (let s = s\<lparr>lastStartState := 0\<rparr>
                     in if systemState s = IDLE
                        then (if doorOpenWarningActive s
                              then playBeep 300 500 (printf CannotStartDoorLine s)
                              else if overloadWarningActive s
                              then playBeep 300 500 (printf CannotStartOverloadLine s)
                              else startCycle b s)
                        else if systemState s = RUNNING
                        then playBeep 500 100 (printf CycleAlreadyInProgressLine s)
                        else s)
               else s)
      in if startPauseButton_346 b = 1 then s\<lparr>lastStartState := 1\<rparr> else s)"

definition handleButtons :: "button_reads \<Rightarrow> machine \<Rightarrow> machine" where
  "handleButtons b s = handleStartButton b (handlePowerButton b s)"

section \<open>The main loop (lines 351-378)\<close>

text \<open>Lines 353-358.\<close>

definition main_init :: "machine \<Rightarrow> machine" where
  "main_init s =
     (let s = emit (PwmWrite BUZZER 0) s;
          s = setRGB 0 0 0 s;
          s = redLED_write 0 s;
          s = updateDisplay 0 s
      in printf SystemStarting s)"

text \<open>Lines 362-376: one pass through the body of \<open>while (true)\<close>.\<close>

definition loop_body :: "button_reads \<times> sensor_reads \<Rightarrow> machine \<Rightarrow> machine" where
  "loop_body inp s =
     (let s = handleButtons (fst inp) s
      in case systemState s of
           OFF \<Rightarrow> wait_us 500000 s
         | IDLE \<Rightarrow> wait_us 100000 (readAndProcessSensors (snd inp) s)
         | RUNNING \<Rightarrow> wait_us 100000 (readAndProcessSensors (snd inp) s))"

text \<open>
  The loop never exits. \<open>main_loop inps s\<close> is the state after as many passes as
  \<open>inps\<close> has entries, the \<open>n\<close>-th pass reading the \<open>n\<close>-th entry; it is the state in
  which the next call of \<open>handleButtons\<close> is entered.
\<close>

fun main_loop :: "(button_reads \<times> sensor_reads) list \<Rightarrow> machine \<Rightarrow> machine" where
  "main_loop [] s = s"
| "main_loop (inp # inps) s = main_loop inps (loop_body inp s)"

definition main :: "(button_reads \<times> sensor_reads) list \<Rightarrow> machine" where
  "main inps = main_loop inps (main_init initial_machine)"

text \<open>Consecutive passes through \<open>readAndProcessSensors\<close> alone.\<close>

fun polls :: "sensor_reads list \<Rightarrow> machine \<Rightarrow> machine" where
  "polls [] s = s"
| "polls (r # rs) s = polls rs (readAndProcessSensors r s)"

section \<open>Observations and input patterns used in the statements\<close>

text \<open>The console output: the lines printed so far, oldest first.\<close>

fun lines_of :: "event list \<Rightarrow> log_line list" where
  "lines_of [] = []"
| "lines_of (Printf l # es) = l # lines_of es"
| "lines_of (_ # es) = lines_of es"

abbreviation printed :: "machine \<Rightarrow> log_line list" where
  "printed s \<equiv> lines_of (trace s)"

text \<open>
  The source has no tier type: each branch of \<open>setLoadLevelColor\<close> writes one colour,
  and its comment names the load level (light, normal, medium, heavy, overload).
  \<open>shownTier\<close> reads the level back from the colour the RGB LED shows.
\<close>

datatype LoadTier = Light | Normal | Medium | Heavy | Overload

fun tierColour :: "LoadTier \<Rightarrow> real \<times> real \<times> real" where
  "tierColour Light = (0, 1, 0)"
| "tierColour Normal = (1 / 2, 1, 0)"
| "tierColour Medium = (1, 1, 0)"
| "tierColour Heavy = (1, 1 / 2, 0)"
| "tierColour Overload = (1, 0, 0)"

definition shownTier :: "machine \<Rightarrow> LoadTier option" where
  "shownTier s =
     List.find (\<lambda>t. tierColour t = (rgbRed s, rgbGreen s, rgbBlue s))
       [Light, Normal, Medium, Heavy, Overload]"

text \<open>
  A press event of a button is observed on the console: the power branch (lines
  295-299) prints exactly one of the two system lines, and the start branch (lines
  309-343) exactly one of the four start lines, each time it is taken.
\<close>

fun is_power_line :: "log_line \<Rightarrow> bool" where
  "is_power_line SystemOnLine = True"
| "is_power_line SystemOffLine = True"
| "is_power_line _ = False"

fun is_start_line :: "log_line \<Rightarrow> bool" where
  "is_start_line CannotStartDoorLine = True"
| "is_start_line CannotStartOverloadLine = True"
| "is_start_line (StartingCycleLine rpm temp time) = True"
| "is_start_line CycleAlreadyInProgressLine = True"
| "is_start_line _ = False"

definition power_events :: "machine \<Rightarrow> nat" where
  "power_events s = length (filter is_power_line (printed s))"

definition start_events :: "machine \<Rightarrow> nat" where
  "start_events s = length (filter is_start_line (printed s))"

text \<open>
  The release-to-press transitions in a sequence of sampled levels, \<open>lastLevel\<close> being
  the level before the first sample (1 is released, 0 is pressed).
\<close>

fun presses :: "int \<Rightarrow> int list \<Rightarrow> nat" where
  "presses lastLevel [] = 0"
| "presses lastLevel (l # ls) = (if l = 0 \<and> lastLevel = 1 then 1 else 0) + presses l ls"

text \<open>
  The levels of a button as the program samples them over some passes of the main loop,
  two reads per pass, in the order they are read.
\<close>

definition power_samples :: "(button_reads \<times> sensor_reads) list \<Rightarrow> int list" where
  "power_samples inps =
     concat (map (\<lambda>inp. [powerButton_294 (fst inp), powerButton_303 (fst inp)]) inps)"

definition start_samples :: "(button_reads \<times> sensor_reads) list \<Rightarrow> int list" where
  "start_samples inps =
     concat (map (\<lambda>inp. [startPauseButton_308 (fst inp), startPauseButton_346 (fst inp)]) inps)"

text \<open>
  The two reads of a button in one pass are levels, and the button does not go from
  released at the first read to pressed at the second.
\<close>

definition clean_reads :: "int \<Rightarrow> int \<Rightarrow> bool" where
  "clean_reads a b = ((a = 0 \<or> a = 1) \<and> (b = 0 \<or> b = 1) \<and> (a = 0 \<or> b = 1))"

definition power_clean :: "button_reads \<times> sensor_reads \<Rightarrow> bool" where
  "power_clean inp = clean_reads (powerButton_294 (fst inp)) (powerButton_303 (fst inp))"

definition start_clean :: "button_reads \<times> sensor_reads \<Rightarrow> bool" where
  "start_clean inp =
     clean_reads (startPauseButton_308 (fst inp)) (startPauseButton_346 (fst inp))"

text \<open>
  In each of the passes the system is not off (respectively, is off) when the start
  button is checked at line 308, that is, after the power button has been handled.
\<close>

fun on_throughout :: "(button_reads \<times> sensor_reads) list \<Rightarrow> machine \<Rightarrow> bool" where
  "on_throughout [] s = True"
| "on_throughout (inp # inps) s =
     (systemState (handlePowerButton (fst inp) s) \<noteq> OFF \<and>
      on_throughout inps (loop_body inp s))"

fun off_throughout :: "(button_reads \<times> sensor_reads) list \<Rightarrow> machine \<Rightarrow> bool" where
  "off_throughout [] s = True"
| "off_throughout (inp # inps) s =
     (systemState (handlePowerButton (fst inp) s) = OFF \<and>
      off_throughout inps (loop_body inp s))"

text \<open>Some three consecutive entries are all \<open>True\<close>.\<close>

fun three_in_a_row :: "bool list \<Rightarrow> bool" where
  "three_in_a_row (a # b # c # xs) = ((a \<and> b \<and> c) \<or> three_in_a_row (b # c # xs))"
| "three_in_a_row xs = False"

text \<open>The raw door condition of a poll, and the raw overload condition.\<close>

definition rawDoor :: "sensor_reads \<Rightarrow> bool" where
  "rawDoor r = isDoorOpen (fraction (ldrSensor_248 r))"

definition rawOverload :: "sensor_reads \<Rightarrow> bool" where
  "rawOverload r = isOverloaded (fsrAveraged r)"

text \<open>
  What one tone puts on the trace, and what the countdown from \<open>i\<close> does when it shows
  the digit \<open>j\<close> at step \<open>j\<close>.
\<close>

definition beep_events :: "real \<Rightarrow> int \<Rightarrow> event list" where
  "beep_events freq duration_ms =
     [PwmPeriod BUZZER (1 / freq), PwmWrite BUZZER (1 / 2),
      WaitUs (duration_ms * 1000), PwmWrite BUZZER 0]"

definition countdown_events :: "int \<Rightarrow> event list" where
  "countdown_events i =
     concat (map (\<lambda>j. [SegDisWrite (hexDis ! nat j), Printf (CountdownLine j)])
               (rev [1..i]))"

text \<open>Concrete reads for the instances below.\<close>

definition buttons :: "int \<Rightarrow> int \<Rightarrow> button_reads" where
  "buttons pwr strt = \<lparr>
     powerButton_294 = pwr, powerButton_303 = pwr,
     startPauseButton_308 = strt, startPauseButton_346 = strt,
     potRPM_324 = 1 / 2, potTemp_325 = 1 / 2, potTime_326 = 1 / 4 \<rparr>"

definition sensors :: "real \<Rightarrow> real \<Rightarrow> sensor_reads" where
  "sensors load light = \<lparr>
     potRPM = 1 / 2, potTemp = 1 / 2, potTime = 1 / 4,
     fsrAveraged = load, ldrAveraged = light * 100, tempAveraged = 50,
     ldrSensor_238 = analog light, ldrSensor_248 = analog light \<rparr>"

text \<open>
  A machine that is idle with both buttons last seen released; every other field is
  as at start-up.
\<close>

definition idle_machine :: machine where
  "idle_machine = initial_machine\<lparr>systemState := IDLE, lastPowerState := 1, lastStartState := 1\<rparr>"

section \<open>Supporting lemmas\<close>

declare countdown_loop.simps [simp del] completion_beeps.simps [simp del]

lemmas prim_defs = emit_def printf_def wait_us_def segDis_write_def redLED_write_def
  rgbRed_write_def rgbGreen_write_def rgbBlue_write_def setRGB_def playBeep_def

lemma thresholds_ascending:
  "LOAD_LIGHT < LOAD_MEDIUM" "LOAD_MEDIUM < LOAD_HEAVY" "LOAD_HEAVY < LOAD_OVERLOAD"
  by (simp_all add: LOAD_LIGHT_def LOAD_MEDIUM_def LOAD_HEAVY_def LOAD_OVERLOAD_def)

text \<open>Each threshold is within half a unit in the last place of its decimal literal.\<close>

lemma thresholds_binary32:
  "\<bar>LOAD_LIGHT - 2 / 10\<bar> < 1 / 2 ^ 27" "\<bar>LOAD_MEDIUM - 4 / 10\<bar> < 1 / 2 ^ 26"
  "\<bar>LOAD_HEAVY - 6 / 10\<bar> < 1 / 2 ^ 25" "\<bar>LOAD_OVERLOAD - 7 / 10\<bar> < 1 / 2 ^ 25"
  by (simp_all add: LOAD_LIGHT_def LOAD_MEDIUM_def LOAD_HEAVY_def LOAD_OVERLOAD_def)

lemma lines_of_append [simp]: "lines_of (xs @ ys) = lines_of xs @ lines_of ys"
  by (induction xs rule: lines_of.induct) simp_all

lemma c_div_nonneg: "0 \<le> a \<Longrightarrow> 0 < b \<Longrightarrow> c_div a b = a div b"
  by (cases "a = 0") (simp_all add: c_div_def)

lemma c_rem_nonneg: "0 \<le> a \<Longrightarrow> 0 < b \<Longrightarrow> c_rem a b = a mod b"
  by (simp add: c_rem_def c_div_nonneg minus_mult_div_eq_mod)

lemma updateDisplay_pos:
  "0 \<le> v \<Longrightarrow> systemState s \<noteq> OFF \<Longrightarrow>
   updateDisplay v s = segDis_write (hexDis ! nat (v mod 10)) s"
  by (simp add: updateDisplay_def c_rem_nonneg Let_def)

lemma rev_upto_step: "0 < i \<Longrightarrow> rev [1..i] = i # rev [1..i - 1]"
  by (simp add: upto_rec2)

lemma countdown_loop_eq:
  "systemState s \<noteq> OFF \<Longrightarrow>
   countdown_loop i s =
     (if 0 < i
      then s\<lparr>segDis := hexDis ! 1,
             trace := trace s @
               concat (map (\<lambda>j. [SegDisWrite (hexDis ! nat (j mod 10)), Printf (CountdownLine j)])
                         (rev [1..i]))\<rparr>
      else s)"
proof (induction i s rule: countdown_loop.induct)
  case (1 i s)
  show ?case
  proof (cases "0 < i")
    case False
    then show ?thesis by (subst countdown_loop.simps) simp
  next
    case True
    let ?s1 = "printf (CountdownLine i) (updateDisplay i s)"
    have off: "systemState ?s1 \<noteq> OFF"
      using 1(2) True by (simp add: updateDisplay_pos prim_defs)
    have step: "countdown_loop i s = countdown_loop (i - 1) ?s1"
      using True by (subst countdown_loop.simps) simp
    show ?thesis
    proof (cases "i = 1")
      case True
      then show ?thesis
        using 1(2) step by (subst (asm) countdown_loop.simps) (simp add: updateDisplay_pos prim_defs)
    next
      case False
      with True have "0 < i - 1" by simp
      then show ?thesis
        using "1.IH" [OF True off] True 1(2) step
        by (simp add: updateDisplay_pos prim_defs rev_upto_step)
    qed
  qed
qed

lemma completion_beeps_0:
  "completion_beeps 0 s =
     s\<lparr>trace := trace s @ concat (replicate 3 (beep_events 1000 200 @ [WaitUs 200000]))\<rparr>"
  apply (subst completion_beeps.simps, simp)
  apply (subst completion_beeps.simps, simp)
  apply (subst completion_beeps.simps, simp)
  apply (subst completion_beeps.simps, simp)
  apply (simp add: prim_defs beep_events_def numeral_3_eq_3)
  done

lemma runCycleCountdown_eq:
  "systemState s \<noteq> OFF \<Longrightarrow>
   runCycleCountdown m s =
     s\<lparr>segDis := 0x3F,
       trace := trace s @
         concat (map (\<lambda>j. [SegDisWrite (hexDis ! nat (j mod 10)), Printf (CountdownLine j)])
                   (rev [1..c_div m 10])) @
         [SegDisWrite 0x3F, Printf CycleCompleteLine] @
         concat (replicate 3 (beep_events 1000 200 @ [WaitUs 200000]))\<rparr>"
  by (simp add: runCycleCountdown_def Let_def countdown_loop_eq completion_beeps_0
      updateDisplay_pos prim_defs hexDis_def)

lemma countdown_events_digits:
  "i \<le> 9 \<Longrightarrow>
   concat (map (\<lambda>j. [SegDisWrite (hexDis ! nat (j mod 10)), Printf (CountdownLine j)])
             (rev [1..i])) = countdown_events i"
proof -
  assume "i \<le> 9"
  then have "\<forall>j \<in> set (rev [1..i]). j mod 10 = j" by simp
  then show ?thesis
    unfolding countdown_events_def by (intro arg_cong [where f = concat] map_cong) simp_all
qed

subsection \<open>Each block of the poll as one record update\<close>

lemma updateDisplay_upd:
  "updateDisplay v s =
     s\<lparr>segDis := (if systemState s = OFF then 0
                  else if 0 \<le> c_rem v 10 \<and> c_rem v 10 < 16 then hexDis ! nat (c_rem v 10)
                  else segDis s),
       fault := (fault s \<or> (systemState s \<noteq> OFF \<and> \<not> (0 \<le> c_rem v 10 \<and> c_rem v 10 < 16))),
       trace := trace s @
                (if systemState s = OFF then [SegDisWrite 0]
                 else if 0 \<le> c_rem v 10 \<and> c_rem v 10 < 16
                 then [SegDisWrite (hexDis ! nat (c_rem v 10))]
                 else [])\<rparr>"
  by (simp add: updateDisplay_def Let_def prim_defs)

lemma showTimeSetting_upd:
  "showTimeSetting time s =
     s\<lparr>segDis := (if systemState s = IDLE \<and> 0 \<le> c_rem (c_div time 10) 10 \<and>
                     c_rem (c_div time 10) 10 < 16
                  then hexDis ! nat (c_rem (c_div time 10) 10) else segDis s),
       fault := (fault s \<or> (systemState s = IDLE \<and>
                   \<not> (0 \<le> c_rem (c_div time 10) 10 \<and> c_rem (c_div time 10) 10 < 16))),
       trace := trace s @
                (if systemState s = IDLE \<and> 0 \<le> c_rem (c_div time 10) 10 \<and>
                    c_rem (c_div time 10) 10 < 16
                 then [SegDisWrite (hexDis ! nat (c_rem (c_div time 10) 10))]
                 else [])\<rparr>"
  by (simp add: showTimeSetting_def updateDisplay_upd)

lemma reportSettings_upd:
  "reportSettings rpm temp time s =
     (let changed = (hasSignificantChange (of_int rpm) (of_int (prevRpm s)) 50 \<or>
                     hasSignificantChange (of_int temp) (of_int (prevTemp s)) 5 \<or>
                     hasSignificantChange (of_int time) (of_int (prevTime s)) 5)
      in s\<lparr>prevRpm := (if changed then rpm else prevRpm s),
            prevTemp := (if changed then temp else prevTemp s),
            prevTime := (if changed then time else prevTime s),
            trace := trace s @ (if changed then [Printf (SettingsLine rpm temp time)] else [])\<rparr>)"
  by (simp add: reportSettings_def Let_def prim_defs)

lemma reportSensors_upd:
  "reportSensors fsr tempActual ldr ldrNow s =
     (let changed = (hasSignificantChange fsr (prevFsr s) FSR_THRESHOLD \<or>
                     hasSignificantChange tempActual (prevTempActual s) TEMP_THRESHOLD \<or>
                     hasSignificantChange ldr (prevLdr s) LDR_THRESHOLD)
      in s\<lparr>prevFsr := (if changed then fsr else prevFsr s),
            prevTempActual := (if changed then tempActual else prevTempActual s),
            prevLdr := (if changed then ldr else prevLdr s),
            trace := trace s @
              (if changed
               then [Printf (SensorLine fsr (int_of_float (roundf tempActual)) (isDoorOpen ldrNow))]
               else [])\<rparr>)"
  by (simp add: reportSensors_def Let_def prim_defs)

lemma doorState_upd:
  "doorState c s =
     (let oc = (if c then doorOpenCount s + 1 else 0);
          cc = (if c then 0 else doorClosedCount s + 1);
          f = (if doorOpenWarningActive s then cc < DEBOUNCE_COUNT else oc \<ge> DEBOUNCE_COUNT)
      in s\<lparr>doorOpenCount := oc, doorClosedCount := cc, doorOpenWarningActive := f,
            trace := trace s @
              (if f \<and> \<not> doorOpenWarningActive s \<and> systemState s = IDLE
               then beep_events 700 200 else [])\<rparr>)"
  by (auto simp: doorState_def Let_def prim_defs beep_events_def)

lemma doorLED_upd:
  "doorLED s =
     s\<lparr>redLED := (if systemState s = IDLE then (if doorOpenWarningActive s then 1 else 0)
                  else redLED s),
       trace := trace s @
         (if systemState s = IDLE then [RedLedWrite (if doorOpenWarningActive s then 1 else 0)]
          else [])\<rparr>"
  by (simp add: doorLED_def prim_defs)

lemma setLoadLevelColor_upd:
  "setLoadLevelColor load s =
     (let r = (if load < LOAD_LIGHT then 0 else if load < LOAD_MEDIUM then 1 / 2 else 1);
          g = (if load < LOAD_HEAVY then 1 else if load < LOAD_OVERLOAD then 1 / 2 else 0)
      in s\<lparr>rgbRed := r, rgbGreen := g, rgbBlue := 0,
            trace := trace s @ [PwmWrite RGB_RED r, PwmWrite RGB_GREEN g, PwmWrite RGB_BLUE 0]\<rparr>)"
  using thresholds_ascending
  by (simp add: setLoadLevelColor_def Let_def prim_defs)

lemma overloadState_upd:
  "overloadState fsr s =
     s\<lparr>overloadWarningActive := isOverloaded fsr,
       trace := trace s @
         (if isOverloaded fsr = overloadWarningActive s then []
          else if isOverloaded fsr then Printf OverloadWarningLine # beep_events 500 100
          else [Printf LoadAcceptableLine])\<rparr>"
  by (auto simp: overloadState_def Let_def prim_defs beep_events_def)

subsection \<open>The poll as a whole\<close>

lemmas rps_upd = readAndProcessSensors_def showTimeSetting_upd reportSettings_upd
  reportSensors_upd doorState_upd doorLED_upd setLoadLevelColor_upd overloadState_upd Let_def

lemma rps_control:
  "systemState (readAndProcessSensors r s) = systemState s"
  "lastPowerState (readAndProcessSensors r s) = lastPowerState s"
  "lastStartState (readAndProcessSensors r s) = lastStartState s"
  by (simp_all add: rps_upd)

lemma rps_overload: "overloadWarningActive (readAndProcessSensors r s) = rawOverload r"
  by (simp add: rps_upd rawOverload_def)

lemma rps_door:
  "doorOpenCount (readAndProcessSensors r s) = (if rawDoor r then doorOpenCount s + 1 else 0)"
  "doorClosedCount (readAndProcessSensors r s) = (if rawDoor r then 0 else doorClosedCount s + 1)"
  "doorOpenWarningActive (readAndProcessSensors r s) =
     (if doorOpenWarningActive s then doorClosedCount (readAndProcessSensors r s) < 3
      else doorOpenCount (readAndProcessSensors r s) \<ge> 3)"
  by (simp_all add: rps_upd rawDoor_def DEBOUNCE_COUNT_def)

lemma lines_of_beep [simp]: "lines_of (beep_events f d) = []"
  by (simp add: beep_events_def)

lemma rps_lines:
  assumes "\<And>a b c. \<not> P (SettingsLine a b c)" and "\<And>a b c. \<not> P (SensorLine a b c)"
    and "rawOverload r \<Longrightarrow> \<not> P OverloadWarningLine"
    and "\<not> rawOverload r \<Longrightarrow> \<not> P LoadAcceptableLine"
  shows "filter P (printed (readAndProcessSensors r s)) = filter P (printed s)"
proof -
  have 1: "filter P (printed (showTimeSetting t s)) = filter P (printed s)" for t s
    by (simp add: showTimeSetting_upd)
  have 2: "filter P (printed (reportSettings a b c s)) = filter P (printed s)" for a b c s
    using assms(1) by (simp add: reportSettings_upd Let_def)
  have 3: "filter P (printed (reportSensors a b c d s)) = filter P (printed s)" for a b c d s
    using assms(2) by (simp add: reportSensors_upd Let_def)
  have 4: "filter P (printed (doorState c s)) = filter P (printed s)" for c s
    by (simp add: doorState_upd Let_def)
  have 5: "filter P (printed (doorLED s)) = filter P (printed s)" for s
    by (simp add: doorLED_upd)
  have 6: "filter P (printed (setLoadLevelColor l s)) = filter P (printed s)" for l s
    by (simp add: setLoadLevelColor_upd Let_def)
  have 7: "filter P (printed (overloadState (fsrAveraged r) s)) = filter P (printed s)" for s
    using assms(3,4) by (simp add: overloadState_upd rawOverload_def)
  show ?thesis
    unfolding readAndProcessSensors_def Let_def by (simp only: 1 2 3 4 5 6 7)
qed

section \<open>Potentiometer to minutes\<close>

lemma int_of_float_roundf:
  "int_of_float (roundf x) = (if 0 \<le> x then \<lfloor>x + 1 / 2\<rfloor> else \<lceil>x - 1 / 2\<rceil>)"
proof (cases "0 \<le> x")
  case True
  then have "0 \<le> \<lfloor>x + 1 / 2\<rfloor>" by simp
  with True show ?thesis by (simp add: int_of_float_def roundf_def)
next
  case False
  then have "\<lceil>x - 1 / 2\<rceil> \<le> 0" by (simp add: ceiling_le_iff)
  with False show ?thesis by (auto simp: int_of_float_def roundf_def)
qed

lemma int_of_float_roundf_mono:
  assumes "x \<le> y"
  shows "int_of_float (roundf x) \<le> int_of_float (roundf y)"
proof -
  consider "0 \<le> x" | "x < 0" "0 \<le> y" | "y < 0" using assms by linarith
  then show ?thesis
  proof cases
    case 1
    with assms show ?thesis by (simp add: int_of_float_roundf floor_mono)
  next
    case 2
    then have "\<lceil>x - 1 / 2\<rceil> \<le> 0" "0 \<le> \<lfloor>y + 1 / 2\<rfloor>" by (simp_all add: ceiling_le_iff)
    then have "\<lceil>x - 1 / 2\<rceil> \<le> \<lfloor>y + 1 / 2\<rfloor>" by linarith
    with 2 show ?thesis by (simp add: int_of_float_roundf)
  next
    case 3
    with assms show ?thesis by (simp add: int_of_float_roundf ceiling_mono)
  qed
qed

lemma timeSetting_mono: "p \<le> q \<Longrightarrow> timeSetting p \<le> timeSetting q"
  using int_of_float_roundf_mono [of "p * 8" "q * 8"]
  by (simp add: timeSetting_def Let_def)

lemma timeSetting_range:
  assumes "0 \<le> p"
  shows "timeSetting p \<in> {10, 20, 30, 40, 50, 60, 70, 80, 90}"
proof -
  define n where "n = \<lfloor>p * 8 + 1 / 2\<rfloor>"
  from assms have n: "0 \<le> n" by (simp add: n_def)
  from assms have ts: "timeSetting p = (if n + 1 > 9 then 9 else n + 1) * 10"
    by (simp add: timeSetting_def Let_def int_of_float_roundf n_def)
  from n consider "n = 0" | "n = 1" | "n = 2" | "n = 3" | "n = 4" | "n = 5" | "n = 6"
    | "n = 7" | "8 \<le> n" by linarith
  then show ?thesis by cases (simp_all add: ts)
qed

lemma startTime_eq_timeSetting: "startTime p = timeSetting p"
  by (simp add: timeSetting_def startTime_def Let_def)

text \<open>
  Claim C5. The minutes derived from the time potentiometer, both as shown while idle
  (lines 205-208) and as captured when a cycle starts (lines 326-327), are a function
  of the raw reading that is monotonic non-decreasing on the interval from 0 to 1 and
  never exceeds 90; a reading of 1 gives 90 minutes and a reading of 0 gives 10. On
  that interval the value is one of 10, 20, ..., 90, and the two computations agree.
\<close>

theorem pot_to_minutes:
  assumes "0 \<le> p" and "p \<le> q" and "q \<le> 1"
  shows "timeSetting p \<le> timeSetting q \<and> startTime p \<le> startTime q \<and>
         timeSetting p \<in> {10, 20, 30, 40, 50, 60, 70, 80, 90} \<and>
         startTime p = timeSetting p \<and> startTime p \<le> 90 \<and>
         timeSetting 1 = 90 \<and> startTime 1 = 90 \<and> timeSetting 0 = 10 \<and> startTime 0 = 10"
proof -
  have "timeSetting 1 = 90" "timeSetting 0 = 10"
    by (simp_all add: timeSetting_def Let_def int_of_float_roundf)
  moreover have "timeSetting p \<le> 90"
    by (simp add: timeSetting_def Let_def)
  ultimately show ?thesis
    using assms timeSetting_mono [of p q] timeSetting_range [of p]
    by (simp add: startTime_eq_timeSetting)
qed

theorem pot_to_minutes_witness:
  "(0::real) \<le> 1 / 4 \<and> (1 / 4 :: real) \<le> 3 / 4 \<and> (3 / 4 :: real) \<le> 1 \<and>
   timeSetting (1 / 4) = 30 \<and> timeSetting (3 / 4) = 70 \<and>
   timeSetting (1 / 4) \<le> timeSetting (3 / 4) \<and> startTime (1 / 4) = 30"
  using pot_to_minutes [of "1 / 4" "3 / 4"]
  by (simp add: timeSetting_def Let_def int_of_float_roundf)

section \<open>Load classification\<close>

lemma shownTier_setRGB:
  "shownTier (setRGB 0 1 0 s) = Some Light"
  "shownTier (setRGB (1 / 2) 1 0 s) = Some Normal"
  "shownTier (setRGB 1 1 0 s) = Some Medium"
  "shownTier (setRGB 1 (1 / 2) 0 s) = Some Heavy"
  "shownTier (setRGB 1 0 0 s) = Some Overload"
  by (simp_all add: shownTier_def prim_defs)

text \<open>
  Claim C6. The load classifier accepts every load, without clamping, and its
  intervals are half-open at the ascending thresholds: a load below \<open>LOAD_LIGHT\<close>
  (0.2) shows the light colour, from \<open>LOAD_LIGHT\<close> up to but excluding
  \<open>LOAD_MEDIUM\<close> (0.4) the normal one, then medium up to \<open>LOAD_HEAVY\<close> (0.6), heavy up
  to \<open>LOAD_OVERLOAD\<close> (0.7), and overload from \<open>LOAD_OVERLOAD\<close> on. A load equal to
  \<open>LOAD_LIGHT\<close> is normal. The level shown depends on the load alone, not on the state.
\<close>

theorem load_classifier:
  "(load < LOAD_LIGHT \<longrightarrow> shownTier (setLoadLevelColor load s) = Some Light) \<and>
   (LOAD_LIGHT \<le> load \<and> load < LOAD_MEDIUM \<longrightarrow>
      shownTier (setLoadLevelColor load s) = Some Normal) \<and>
   (LOAD_MEDIUM \<le> load \<and> load < LOAD_HEAVY \<longrightarrow>
      shownTier (setLoadLevelColor load s) = Some Medium) \<and>
   (LOAD_HEAVY \<le> load \<and> load < LOAD_OVERLOAD \<longrightarrow>
      shownTier (setLoadLevelColor load s) = Some Heavy) \<and>
   (LOAD_OVERLOAD \<le> load \<longrightarrow> shownTier (setLoadLevelColor load s) = Some Overload) \<and>
   shownTier (setLoadLevelColor LOAD_LIGHT s) = Some Normal \<and>
   shownTier (setLoadLevelColor load s) = shownTier (setLoadLevelColor load s')"
  using thresholds_ascending
  by (simp add: setLoadLevelColor_def shownTier_setRGB)

theorem load_classifier_witness:
  "(- 5 < LOAD_LIGHT \<and> shownTier (setLoadLevelColor (- 5) idle_machine) = Some Light) \<and>
   (LOAD_LIGHT \<le> 3 / 10 \<and> 3 / 10 < LOAD_MEDIUM \<and>
      shownTier (setLoadLevelColor (3 / 10) idle_machine) = Some Normal) \<and>
   (LOAD_MEDIUM \<le> 1 / 2 \<and> 1 / 2 < LOAD_HEAVY \<and>
      shownTier (setLoadLevelColor (1 / 2) idle_machine) = Some Medium) \<and>
   (LOAD_HEAVY \<le> 13 / 20 \<and> 13 / 20 < LOAD_OVERLOAD \<and>
      shownTier (setLoadLevelColor (13 / 20) idle_machine) = Some Heavy) \<and>
   (LOAD_OVERLOAD \<le> 7 \<and> shownTier (setLoadLevelColor 7 idle_machine) = Some Overload)"
  using load_classifier [of "- 5" idle_machine] load_classifier [of "3 / 10" idle_machine]
    load_classifier [of "1 / 2" idle_machine] load_classifier [of "13 / 20" idle_machine]
    load_classifier [of 7 idle_machine]
  by (simp add: LOAD_LIGHT_def LOAD_MEDIUM_def LOAD_HEAVY_def LOAD_OVERLOAD_def)

section \<open>Power, start and countdown\<close>

lemma powerOn_upd:
  "powerOn s =
     s\<lparr>systemState := IDLE,
       trace := trace s @ beep_events 600 100 @
         [Printf SystemOnLine, PwmPeriod RGB_RED (1 / FREQUENCY),
          PwmPeriod RGB_GREEN (1 / FREQUENCY), PwmPeriod RGB_BLUE (1 / FREQUENCY)]\<rparr>"
  by (simp add: powerOn_def Let_def prim_defs beep_events_def)

lemma powerOff_upd:
  "powerOff s =
     s\<lparr>systemState := OFF, rgbRed := 0, rgbGreen := 0, rgbBlue := 0, redLED := 0, segDis := 0,
       doorOpenWarningActive := False, overloadWarningActive := False,
       trace := trace s @ beep_events 600 100 @
         [Printf SystemOffLine, PwmWrite RGB_RED 0, PwmWrite RGB_GREEN 0, PwmWrite RGB_BLUE 0,
          RedLedWrite 0, SegDisWrite 0]\<rparr>"
  by (simp add: powerOff_def Let_def updateDisplay_def prim_defs beep_events_def)

lemma startCycle_upd:
  "systemState s \<noteq> OFF \<Longrightarrow>
   startCycle b s =
     s\<lparr>systemState := IDLE, segDis := 0x3F,
       trace := trace s @
         [Printf (StartingCycleLine (rpmSetting (potRPM_324 b)) (tempSetting (potTemp_325 b))
                    (startTime (potTime_326 b)))] @
         beep_events 700 100 @
         concat (map (\<lambda>j. [SegDisWrite (hexDis ! nat (j mod 10)), Printf (CountdownLine j)])
                   (rev [1..c_div (startTime (potTime_326 b)) 10])) @
         [SegDisWrite 0x3F, Printf CycleCompleteLine] @
         concat (replicate 3 (beep_events 1000 200 @ [WaitUs 200000])) @
         [Printf CycleEndedLine]\<rparr>"
  by (simp add: startCycle_def Let_def runCycleCountdown_eq prim_defs beep_events_def)

lemma startCycle_state: "systemState (startCycle b s) = IDLE"
  by (simp add: startCycle_def Let_def prim_defs)

text \<open>
  Claim C8, amended. Given total minutes \<open>M\<close> from 10, 20, ..., 90 and the system
  running (the only state \<open>runCycleCountdown\<close> is called in), the countdown computes
  \<open>M / 10\<close> steps and counts from that number down to 1, writing the digit of the
  counter to the display and printing a line at each step. On completion the display
  is set to the digit 0 (segment pattern 0x3F), exactly three tones of 200 ms are played,
  each followed by a 200 ms pause, and \<open>startCycle\<close> leaves the system idle.
\<close>

theorem countdown_completes:
  assumes "M \<in> {10, 20, 30, 40, 50, 60, 70, 80, 90}" and "systemState s = RUNNING"
  shows "trace (runCycleCountdown M s) =
           trace s @ countdown_events (M div 10) @
           [SegDisWrite (hexDis ! 0), Printf CycleCompleteLine] @
           concat (replicate 3 (beep_events 1000 200 @ [WaitUs 200000])) \<and>
         segDis (runCycleCountdown M s) = hexDis ! 0 \<and> hexDis ! 0 = 0x3F \<and>
         systemState (runCycleCountdown M s) = RUNNING \<and>
         systemState (startCycle b s') = IDLE"
proof -
  from assms(1) have m: "0 \<le> M" "M div 10 \<le> 9" by auto
  have "trace (runCycleCountdown M s) =
           trace s @ countdown_events (M div 10) @
           [SegDisWrite (hexDis ! 0), Printf CycleCompleteLine] @
           concat (replicate 3 (beep_events 1000 200 @ [WaitUs 200000]))"
    using m assms(2)
    by (simp add: runCycleCountdown_eq c_div_nonneg countdown_events_digits)
      (simp add: hexDis_def)
  moreover have "segDis (runCycleCountdown M s) = hexDis ! 0" "hexDis ! 0 = 0x3F"
    using assms(2) by (simp_all add: runCycleCountdown_eq hexDis_def)
  moreover have "systemState (runCycleCountdown M s) = RUNNING"
    using assms(2) by (simp add: runCycleCountdown_eq)
  ultimately show ?thesis
    by (simp only: startCycle_state simp_thms)
qed

text \<open>Claim C8, an instance: the countdown from 30 minutes.\<close>

theorem countdown_completes_witness:
  "(30::int) \<in> {10, 20, 30, 40, 50, 60, 70, 80, 90} \<and>
   systemState (idle_machine\<lparr>systemState := RUNNING\<rparr>) = RUNNING \<and>
   trace (runCycleCountdown 30 (idle_machine\<lparr>systemState := RUNNING\<rparr>)) =
     [SegDisWrite 0x4F, Printf (CountdownLine 3), SegDisWrite 0x5B, Printf (CountdownLine 2),
      SegDisWrite 0x06, Printf (CountdownLine 1), SegDisWrite 0x3F, Printf CycleCompleteLine,
      PwmPeriod BUZZER (1 / 1000), PwmWrite BUZZER (1 / 2), WaitUs 200000, PwmWrite BUZZER 0,
      WaitUs 200000,
      PwmPeriod BUZZER (1 / 1000), PwmWrite BUZZER (1 / 2), WaitUs 200000, PwmWrite BUZZER 0,
      WaitUs 200000,
      PwmPeriod BUZZER (1 / 1000), PwmWrite BUZZER (1 / 2), WaitUs 200000, PwmWrite BUZZER 0,
      WaitUs 200000]"
  using countdown_completes [of 30 "idle_machine\<lparr>systemState := RUNNING\<rparr>"]
  by (simp add: idle_machine_def initial_machine_def countdown_events_def beep_events_def
      hexDis_def upto_rec1 numeral_3_eq_3)

text \<open>
  Claim C8 as stated says the display clears on completion. The blank display is the
  pattern 0x00, which \<open>updateDisplay\<close> writes only while the system is off; after a
  countdown the display holds a lit digit.
\<close>

theorem display_not_cleared:
  "segDis (runCycleCountdown 10 (idle_machine\<lparr>systemState := RUNNING\<rparr>)) \<noteq> 0x00"
  by (simp add: runCycleCountdown_eq idle_machine_def initial_machine_def)

text \<open>
  Claim C7, amended. After \<open>powerOff\<close> both the door flag and the overload flag are
  inactive; the previous FSR, LDR and actual-temperature readings are left as they
  were.
\<close>

theorem powerOff_resets:
  "\<not> doorOpenWarningActive (powerOff s) \<and> \<not> overloadWarningActive (powerOff s) \<and>
   prevFsr (powerOff s) = prevFsr s \<and> prevLdr (powerOff s) = prevLdr s \<and>
   prevTempActual (powerOff s) = prevTempActual s"
  by (simp add: powerOff_upd)

text \<open>
  Claim C7 as stated says that after power-off the previous-reading fields equal the
  sentinel \<open>-1\<close>. Switch on, poll once with a load of one half, switch off: the previous
  load reading is still the polled value.
\<close>

theorem prev_readings_survive_power_off:
  "prevFsr (powerOff (readAndProcessSensors (sensors (1 / 2) 0) (powerOn initial_machine))) \<noteq> - 1"
  by (simp add: powerOff_upd powerOn_upd rps_upd sensors_def initial_machine_def hasSignificantChange_def)

section \<open>Button handling\<close>

lemma lines_of_concat_map:
  "lines_of (concat (map f xs)) = concat (map (\<lambda>x. lines_of (f x)) xs)"
  by (induction xs) simp_all

lemma lines_of_concat_replicate:
  "lines_of xs = [] \<Longrightarrow> lines_of (concat (replicate n xs)) = []"
  by (induction n) simp_all

lemma concat_map_single: "concat (map (\<lambda>x. [g x]) xs) = map g xs"
  by (induction xs) simp_all

lemma startCycle_printed:
  "systemState s \<noteq> OFF \<Longrightarrow>
   printed (startCycle b s) =
     printed s @
     StartingCycleLine (rpmSetting (potRPM_324 b)) (tempSetting (potTemp_325 b))
       (startTime (potTime_326 b)) #
     map CountdownLine (rev [1..c_div (startTime (potTime_326 b)) 10]) @
     [CycleCompleteLine, CycleEndedLine]"
  by (simp add: startCycle_upd lines_of_concat_map lines_of_concat_replicate concat_map_single)

lemma startCycle_fields:
  "systemState s \<noteq> OFF \<Longrightarrow> lastPowerState (startCycle b s) = lastPowerState s"
  "systemState s \<noteq> OFF \<Longrightarrow> lastStartState (startCycle b s) = lastStartState s"
  by (simp_all add: startCycle_upd)

lemma handlePowerButton_fields:
  "lastStartState (handlePowerButton b s) = lastStartState s"
  "systemState (handlePowerButton b s) =
     (if powerButton_294 b = 0 \<and> lastPowerState s = 1
      then (if systemState s = OFF then IDLE else OFF) else systemState s)"
  "lastPowerState (handlePowerButton b s) =
     (if powerButton_303 b = 1 then 1
      else if powerButton_294 b = 0 \<and> lastPowerState s = 1 then 0 else lastPowerState s)"
  by (simp_all add: handlePowerButton_def Let_def powerOn_upd powerOff_upd)

lemma handlePowerButton_printed:
  "printed (handlePowerButton b s) =
     printed s @
     (if powerButton_294 b = 0 \<and> lastPowerState s = 1
      then [if systemState s = OFF then SystemOnLine else SystemOffLine] else [])"
  by (simp add: handlePowerButton_def Let_def powerOn_upd powerOff_upd)

lemma handleStartButton_fields:
  "systemState (handleStartButton b s) = systemState s"
  "lastPowerState (handleStartButton b s) = lastPowerState s"
  "lastStartState (handleStartButton b s) =
     (if startPauseButton_346 b = 1 then 1
      else if startPauseButton_308 b = 0 \<and> lastStartState s = 1 \<and> systemState s \<noteq> OFF then 0
      else lastStartState s)"
  by (auto simp: handleStartButton_def Let_def startCycle_upd prim_defs)

lemma handleStartButton_printed:
  "printed (handleStartButton b s) =
     printed s @
     (if startPauseButton_308 b = 0 \<and> lastStartState s = 1 \<and> systemState s \<noteq> OFF
      then (if systemState s = IDLE
            then (if doorOpenWarningActive s then [CannotStartDoorLine]
                  else if overloadWarningActive s then [CannotStartOverloadLine]
                  else StartingCycleLine (rpmSetting (potRPM_324 b)) (tempSetting (potTemp_325 b))
                         (startTime (potTime_326 b)) #
                       map CountdownLine (rev [1..c_div (startTime (potTime_326 b)) 10]) @
                       [CycleCompleteLine, CycleEndedLine])
            else [CycleAlreadyInProgressLine])
      else [])"
  by (cases "systemState s")
     (simp_all add: handleStartButton_def Let_def startCycle_printed prim_defs)

section \<open>One pass through the main loop\<close>

lemma handleButtons_fields:
  "systemState (handleButtons b s) = systemState (handlePowerButton b s)"
  "lastPowerState (handleButtons b s) = lastPowerState (handlePowerButton b s)"
  by (simp_all add: handleButtons_def handleStartButton_fields)

lemma loop_body_fields:
  "systemState (loop_body inp s) = systemState (handleButtons (fst inp) s)"
  "lastPowerState (loop_body inp s) = lastPowerState (handleButtons (fst inp) s)"
  "lastStartState (loop_body inp s) = lastStartState (handleButtons (fst inp) s)"
  by (cases "systemState (handleButtons (fst inp) s)";
      simp add: loop_body_def Let_def rps_control prim_defs)+

lemma loop_body_lines:
  assumes "\<And>a b c. \<not> P (SettingsLine a b c)" and "\<And>a b c. \<not> P (SensorLine a b c)"
    and "\<not> P OverloadWarningLine" and "\<not> P LoadAcceptableLine"
  shows "filter P (printed (loop_body inp s)) = filter P (printed (handleButtons (fst inp) s))"
  by (cases "systemState (handleButtons (fst inp) s)")
     (simp_all add: loop_body_def Let_def rps_lines [of P] assms prim_defs)

lemma handleButtons_not_running:
  assumes "systemState s \<noteq> RUNNING"
  shows "systemState (handleButtons b s) \<noteq> RUNNING"
    and "filter (\<lambda>l. l = CycleAlreadyInProgressLine) (printed (handleButtons b s)) =
         filter (\<lambda>l. l = CycleAlreadyInProgressLine) (printed s)"
proof -
  show 1: "systemState (handleButtons b s) \<noteq> RUNNING"
    using assms by (simp add: handleButtons_fields handlePowerButton_fields)
  then have "systemState (handlePowerButton b s) \<noteq> RUNNING"
    by (simp add: handleButtons_fields)
  then show "filter (\<lambda>l. l = CycleAlreadyInProgressLine) (printed (handleButtons b s)) =
         filter (\<lambda>l. l = CycleAlreadyInProgressLine) (printed s)"
    by (cases "systemState (handlePowerButton b s)")
       (simp_all add: handleButtons_def handleStartButton_printed handlePowerButton_printed
          filter_map o_def)
qed

lemma main_loop_not_running:
  assumes "systemState s \<noteq> RUNNING"
  shows "systemState (main_loop inps s) \<noteq> RUNNING \<and>
         filter (\<lambda>l. l = CycleAlreadyInProgressLine) (printed (main_loop inps s)) =
         filter (\<lambda>l. l = CycleAlreadyInProgressLine) (printed s)"
  using assms
proof (induction inps arbitrary: s)
  case Nil
  then show ?case by simp
next
  case (Cons inp inps)
  have "systemState (loop_body inp s) \<noteq> RUNNING"
    using Cons.prems by (simp add: loop_body_fields handleButtons_not_running)
  moreover have "filter (\<lambda>l. l = CycleAlreadyInProgressLine) (printed (loop_body inp s)) =
      filter (\<lambda>l. l = CycleAlreadyInProgressLine) (printed s)"
    using Cons.prems by (simp add: loop_body_lines handleButtons_not_running)
  ultimately show ?case
    using Cons.IH [of "loop_body inp s"] by simp
qed

lemma main_init_fields:
  "systemState (main_init s) = systemState s"
  "lastPowerState (main_init s) = lastPowerState s"
  "lastStartState (main_init s) = lastStartState s"
  "printed (main_init s) = printed s @ [SystemStarting]"
  by (simp_all add: main_init_def Let_def updateDisplay_upd prim_defs)

text \<open>
  Claim C10. In every execution, after any number of passes through the main loop,
  that is, whenever \<open>handleButtons\<close> is entered, the system state is not \<open>RUNNING\<close>;
  the branch of lines 340-343 is never taken: the line it prints never appears on the
  console.
\<close>

theorem never_running_at_entry:
  "systemState (main inps) \<noteq> RUNNING \<and>
   CycleAlreadyInProgressLine \<notin> set (printed (main inps))"
proof -
  have "systemState (main_init initial_machine) \<noteq> RUNNING"
    by (simp add: main_init_fields) (simp add: initial_machine_def)
  from main_loop_not_running [OF this, of inps]
  have "systemState (main inps) \<noteq> RUNNING"
    and "filter (\<lambda>l. l = CycleAlreadyInProgressLine) (printed (main inps)) = []"
    by (simp_all add: main_def main_init_fields) (simp add: initial_machine_def)
  then show ?thesis by (auto simp: filter_empty_conv)
qed

text \<open>Claim C10, an instance: a pass that presses power and start together.\<close>

theorem never_running_at_entry_witness:
  "systemState (main [(buttons 1 1, sensors 0 0), (buttons 0 0, sensors 0 0)]) \<noteq> RUNNING \<and>
   CycleAlreadyInProgressLine \<notin>
     set (printed (main [(buttons 1 1, sensors 0 0), (buttons 0 0, sensors 0 0)]))"
  using never_running_at_entry [of "[(buttons 1 1, sensors 0 0), (buttons 0 0, sensors 0 0)]"]
  by simp

section \<open>Refused start\<close>

lemma handlePowerButton_pots:
  "handlePowerButton (b\<lparr>potRPM_324 := x, potTemp_325 := y, potTime_326 := z\<rparr>) s =
   handlePowerButton b s"
  by (simp add: handlePowerButton_def)

lemma handleStartButton_refused:
  assumes "systemState s = IDLE" and "startPauseButton_308 b = 0" and "lastStartState s = 1"
    and "doorOpenWarningActive s \<or> overloadWarningActive s"
  shows "handleStartButton b s =
     s\<lparr>lastStartState := (if startPauseButton_346 b = 1 then 1 else 0),
       trace := trace s @
         Printf (if doorOpenWarningActive s then CannotStartDoorLine else CannotStartOverloadLine)
         # beep_events 300 500\<rparr>"
  using assms by (auto simp: handleStartButton_def Let_def prim_defs beep_events_def)

text \<open>
  Claim C2. Let \<open>s1\<close> be the state in which the start button is checked (after the
  power button has been handled). If the system is idle there, the start press fires,
  and the door flag or the overload flag is active, then \<open>handleButtons\<close> only lowers
  \<open>lastStartState\<close> (raised again if the button reads released at line 346), prints
  the rejection line and plays the 300 Hz tone of 500 ms. The system stays idle, no
  cycle-start line is printed, and the result does not depend on the potentiometers.
\<close>

theorem start_refused:
  assumes "s1 = handlePowerButton b s"
    and "systemState s1 = IDLE"
    and "startPauseButton_308 b = 0" and "lastStartState s1 = 1"
    and "doorOpenWarningActive s1 \<or> overloadWarningActive s1"
  shows "handleButtons b s =
           s1\<lparr>lastStartState := (if startPauseButton_346 b = 1 then 1 else 0),
              trace := trace s1 @
                Printf (if doorOpenWarningActive s1 then CannotStartDoorLine
                        else CannotStartOverloadLine) # beep_events 300 500\<rparr> \<and>
         systemState (handleButtons b s) = IDLE \<and>
         filter is_start_line (printed (handleButtons b s)) =
           filter is_start_line (printed s1) @
           [if doorOpenWarningActive s1 then CannotStartDoorLine else CannotStartOverloadLine] \<and>
         handleButtons (b\<lparr>potRPM_324 := x, potTemp_325 := y, potTime_326 := z\<rparr>) s =
           handleButtons b s"
proof -
  let ?b = "b\<lparr>potRPM_324 := x, potTemp_325 := y, potTime_326 := z\<rparr>"
  have eq: "handleButtons b s =
           s1\<lparr>lastStartState := (if startPauseButton_346 b = 1 then 1 else 0),
              trace := trace s1 @
                Printf (if doorOpenWarningActive s1 then CannotStartDoorLine
                        else CannotStartOverloadLine) # beep_events 300 500\<rparr>"
    using assms(2-5) unfolding handleButtons_def assms(1) [symmetric]
    by (rule handleStartButton_refused)
  have "handleButtons ?b s = handleStartButton ?b s1"
    by (simp add: handleButtons_def handlePowerButton_pots assms(1))
  also have "\<dots> = handleButtons b s"
    using assms(2-5) by (simp add: handleStartButton_refused eq)
  finally have pots: "handleButtons ?b s = handleButtons b s" .
  show ?thesis
    using assms(2) by (simp add: eq pots)
qed

text \<open>Claim C2, an instance: start pressed while idle with the door flag active.\<close>

theorem start_refused_witness:
  "systemState (handlePowerButton (buttons 1 0) (idle_machine\<lparr>doorOpenWarningActive := True\<rparr>))
     = IDLE \<and>
   startPauseButton_308 (buttons 1 0) = 0 \<and>
   lastStartState (handlePowerButton (buttons 1 0) (idle_machine\<lparr>doorOpenWarningActive := True\<rparr>))
     = 1 \<and>
   doorOpenWarningActive
     (handlePowerButton (buttons 1 0) (idle_machine\<lparr>doorOpenWarningActive := True\<rparr>)) \<and>
   systemState (handleButtons (buttons 1 0) (idle_machine\<lparr>doorOpenWarningActive := True\<rparr>))
     = IDLE \<and>
   trace (handleButtons (buttons 1 0) (idle_machine\<lparr>doorOpenWarningActive := True\<rparr>)) =
     [Printf CannotStartDoorLine, PwmPeriod BUZZER (1 / 300), PwmWrite BUZZER (1 / 2),
      WaitUs 500000, PwmWrite BUZZER 0]"
proof -
  let ?s = "idle_machine\<lparr>doorOpenWarningActive := True\<rparr>"
  have s1: "handlePowerButton (buttons 1 0) ?s = ?s"
    by (simp add: handlePowerButton_def buttons_def idle_machine_def initial_machine_def)
  have h: "systemState ?s = IDLE" "startPauseButton_308 (buttons 1 0) = 0" "lastStartState ?s = 1"
    "doorOpenWarningActive ?s \<or> overloadWarningActive ?s"
    by (simp_all add: buttons_def idle_machine_def initial_machine_def)
  show ?thesis
    using start_refused [OF s1 [symmetric] h] h
    by (simp add: s1 beep_events_def) (simp add: idle_machine_def initial_machine_def)
qed

section \<open>The door flag and the overload flag\<close>

lemma three_in_a_row_Cons: "three_in_a_row xs \<Longrightarrow> three_in_a_row (x # xs)"
  by (cases xs rule: three_in_a_row.cases) simp_all

lemma three_in_a_row_append: "three_in_a_row ys \<Longrightarrow> three_in_a_row (xs @ ys)"
  by (induction xs) (simp_all add: three_in_a_row_Cons)

lemma three_in_a_row_replicate:
  "2 \<le> c \<Longrightarrow> three_in_a_row (replicate c True @ True # xs)"
proof -
  assume "2 \<le> c"
  then obtain d where c: "c = d + 2" by (metis add.commute le_Suc_ex)
  have "replicate c True @ True # xs = replicate d True @ (True # True # True # xs)"
    unfolding c by (simp only: replicate_add append_assoc) (simp add: numeral_2_eq_2)
  moreover have "three_in_a_row (replicate d True @ (True # True # True # xs))"
    by (rule three_in_a_row_append) simp
  ultimately show ?thesis by simp
qed

lemma polls_door_stable:
  assumes "doorOpenWarningActive s = f"
    and "(if f then doorClosedCount s else doorOpenCount s) = int c"
    and "\<not> three_in_a_row (replicate c True @ map (\<lambda>r. rawDoor r \<noteq> f) rs)"
  shows "doorOpenWarningActive (polls rs s) = f"
  using assms
proof (induction rs arbitrary: s c)
  case Nil
  then show ?case by simp
next
  case (Cons r rs)
  let ?s = "readAndProcessSensors r s"
  show ?case
  proof (cases "rawDoor r \<noteq> f")
    case True
    with Cons.prems(3) have "\<not> 2 \<le> c"
      using three_in_a_row_replicate [of c] by auto
    then have c: "c < 2" by simp
    have flag: "doorOpenWarningActive ?s = f"
      using True c Cons.prems(1,2) by (auto simp: rps_door split: if_splits)
    have count: "(if f then doorClosedCount ?s else doorOpenCount ?s) = int (Suc c)"
      using True Cons.prems(1,2) by (auto simp: rps_door split: if_splits)
    have "\<not> three_in_a_row (replicate (Suc c) True @ map (\<lambda>r. rawDoor r \<noteq> f) rs)"
      using True Cons.prems(3) by (simp add: replicate_app_Cons_same)
    from Cons.IH [OF flag count this] show ?thesis by simp
  next
    case False
    have flag: "doorOpenWarningActive ?s = f"
      using False Cons.prems(1) by (auto simp: rps_door)
    have count: "(if f then doorClosedCount ?s else doorOpenCount ?s) = int 0"
      using False by (auto simp: rps_door)
    have "\<not> three_in_a_row (replicate 0 True @ map (\<lambda>r. rawDoor r \<noteq> f) rs)"
      using Cons.prems(3) three_in_a_row_append [of "map (\<lambda>r. rawDoor r \<noteq> f) rs"
          "replicate c True @ [rawDoor r \<noteq> f]"]
      by auto
    from Cons.IH [OF flag count this] show ?thesis by simp
  qed
qed

text \<open>
  Claim C1, amended. The door flag never toggles on fewer than 3 consecutive opposing
  raw samples: starting with the flag at \<open>f\<close> and the counter of opposing samples at
  zero, every sequence of polls in which no three consecutive raw door readings differ
  from \<open>f\<close> leaves the flag at \<open>f\<close> (the condition also holds of every initial part of
  such a sequence, so the flag is \<open>f\<close> throughout). The overload flag is not
  debounced: after every poll it equals the raw overload condition of that poll.
\<close>

theorem door_flag_needs_three_samples:
  assumes "doorOpenWarningActive s = f"
    and "(if f then doorClosedCount s else doorOpenCount s) = 0"
    and "\<not> three_in_a_row (map (\<lambda>r. rawDoor r \<noteq> f) rs)"
  shows "doorOpenWarningActive (polls rs s) = f \<and>
         overloadWarningActive (readAndProcessSensors r t) = rawOverload r"
  using polls_door_stable [of s f 0 rs] assms by (simp add: rps_overload)

text \<open>
  Claim C1, an instance: with the door flag active, two closed readings leave it
  active, and one overloaded reading raises the overload flag.
\<close>

theorem door_flag_needs_three_samples_witness:
  "doorOpenWarningActive (idle_machine\<lparr>doorOpenWarningActive := True\<rparr>) = True \<and>
   doorClosedCount (idle_machine\<lparr>doorOpenWarningActive := True\<rparr>) = 0 \<and>
   map (\<lambda>r. rawDoor r \<noteq> True) [sensors 0 0, sensors 0 0] = [True, True] \<and>
   \<not> three_in_a_row [True, True] \<and>
   doorOpenWarningActive
     (polls [sensors 0 0, sensors 0 0] (idle_machine\<lparr>doorOpenWarningActive := True\<rparr>)) = True \<and>
   rawOverload (sensors (3 / 4) 0) \<and>
   overloadWarningActive (readAndProcessSensors (sensors (3 / 4) 0) idle_machine)"
  using door_flag_needs_three_samples [of "idle_machine\<lparr>doorOpenWarningActive := True\<rparr>" True
      "[sensors 0 0, sensors 0 0]" "sensors (3 / 4) 0" idle_machine]
  by (simp add: idle_machine_def initial_machine_def rawDoor_def rawOverload_def sensors_def
      isDoorOpen_def isOverloaded_def DOOR_OPEN_THRESHOLD_def LOAD_OVERLOAD_def analog.rep_eq)

text \<open>
  Claim C1 as stated covers the overload flag too. After power-on the overload flag is
  inactive, and a single poll with a load of three quarters activates it.
\<close>

theorem overload_flag_toggles_on_one_sample:
  "\<not> overloadWarningActive (powerOn initial_machine) \<and>
   overloadWarningActive (readAndProcessSensors (sensors (3 / 4) 0) (powerOn initial_machine))"
  by (simp add: rps_overload powerOn_upd rawOverload_def sensors_def isOverloaded_def
      LOAD_OVERLOAD_def initial_machine_def)

subsection \<open>The door is never seen open\<close>

lemma rawDoor_never: "\<not> rawDoor r"
proof -
  have "fraction (ldrSensor_248 r) \<le> 1"
    using fraction [of "ldrSensor_248 r"] by simp
  then show ?thesis
    by (simp add: rawDoor_def isDoorOpen_def DOOR_OPEN_THRESHOLD_def)
qed

text \<open>
  Claim C3. The claim is that three consecutive polls with the door-open condition
  true raise the door flag on the third poll. The condition the program is meant to
  test is a light level above 40 percent (comment at line 17; the prototype of
  \<open>isDoorOpen\<close> takes the light level). Here the light sensor reads one half on three
  consecutive polls after switching on, so the light level is 50 percent, above the
  threshold; yet \<open>isDoorOpen\<close> compares the unscaled read with 40, its result is false
  on every poll, and the door flag is still inactive after the third.
\<close>

theorem door_flag_not_raised_at_half_light:
  "fraction (ldrSensor_248 (sensors 0 (1 / 2))) = 1 / 2 \<and>
   ldrAveraged (sensors 0 (1 / 2)) = 50 \<and> DOOR_OPEN_THRESHOLD < 50 \<and>
   \<not> doorOpenWarningActive (powerOn initial_machine) \<and>
   doorOpenCount (powerOn initial_machine) = 0 \<and>
   doorClosedCount (powerOn initial_machine) = 0 \<and>
   \<not> rawDoor (sensors 0 (1 / 2)) \<and>
   \<not> doorOpenWarningActive
       (polls [sensors 0 (1 / 2), sensors 0 (1 / 2), sensors 0 (1 / 2)]
          (powerOn initial_machine)) \<and>
   doorOpenCount
       (polls [sensors 0 (1 / 2), sensors 0 (1 / 2), sensors 0 (1 / 2)]
          (powerOn initial_machine)) = 0"
proof -
  have "fraction (ldrSensor_248 (sensors 0 (1 / 2))) = 1 / 2"
    "ldrAveraged (sensors 0 (1 / 2)) = 50" "DOOR_OPEN_THRESHOLD < 50"
    by (simp_all add: sensors_def analog.rep_eq DOOR_OPEN_THRESHOLD_def)
  moreover have "\<not> doorOpenWarningActive (powerOn initial_machine)"
    "doorOpenCount (powerOn initial_machine) = 0" "doorClosedCount (powerOn initial_machine) = 0"
    by (simp_all add: powerOn_upd initial_machine_def)
  ultimately show ?thesis
    by (simp add: rps_door rawDoor_never)
qed

section \<open>A load exactly at the overload threshold\<close>

lemma handlePowerButton_no_press:
  "\<not> (powerButton_294 b = 0 \<and> lastPowerState s = 1) \<Longrightarrow>
   handlePowerButton b s =
     s\<lparr>lastPowerState := (if powerButton_303 b = 1 then 1 else lastPowerState s)\<rparr>"
  by (auto simp: handlePowerButton_def Let_def)

lemma rps_shown:
  "shownTier (readAndProcessSensors r s) = shownTier (setLoadLevelColor (fsrAveraged r) s)"
  by (simp add: rps_upd shownTier_def)

text \<open>
  Claim C9. When the averaged load reading equals the overload threshold
  \<open>LOAD_OVERLOAD\<close> (0.7), the poll leaves the RGB LED showing the overload colour,
  while \<open>isOverloaded\<close> is false for that load: the overload flag is inactive after the
  poll and no overload warning line is printed by it. A start press that fires in the
  next \<open>handleButtons\<close> (system idle, door flag inactive, power button not firing) is
  therefore not refused: it prints the cycle-start line.
\<close>

theorem load_at_overload_threshold:
  assumes "fsrAveraged r = LOAD_OVERLOAD"
  shows "shownTier (readAndProcessSensors r s) = Some Overload \<and>
         \<not> isOverloaded LOAD_OVERLOAD \<and>
         \<not> overloadWarningActive (readAndProcessSensors r s) \<and>
         filter (\<lambda>l. l = OverloadWarningLine) (printed (readAndProcessSensors r s)) =
           filter (\<lambda>l. l = OverloadWarningLine) (printed s) \<and>
         (systemState s = IDLE \<and> \<not> doorOpenWarningActive (readAndProcessSensors r s) \<and>
          lastStartState s = 1 \<and> startPauseButton_308 b = 0 \<and>
          \<not> (powerButton_294 b = 0 \<and> lastPowerState s = 1) \<longrightarrow>
            filter is_start_line (printed (handleButtons b (readAndProcessSensors r s))) =
              filter is_start_line (printed (readAndProcessSensors r s)) @
              [StartingCycleLine (rpmSetting (potRPM_324 b)) (tempSetting (potTemp_325 b))
                 (startTime (potTime_326 b))])"
proof -
  let ?s = "readAndProcessSensors r s"
  have raw: "\<not> rawOverload r"
    using assms by (simp add: rawOverload_def isOverloaded_def)
  have 1: "shownTier ?s = Some Overload"
    using assms thresholds_ascending
    by (simp add: rps_shown setLoadLevelColor_def shownTier_setRGB)
  have 2: "\<not> isOverloaded LOAD_OVERLOAD"
    by (simp add: isOverloaded_def)
  have 3: "\<not> overloadWarningActive ?s"
    using raw by (simp add: rps_overload)
  have 4: "filter (\<lambda>l. l = OverloadWarningLine) (printed ?s) =
           filter (\<lambda>l. l = OverloadWarningLine) (printed s)"
    using raw by (intro rps_lines) simp_all
  have 5: "filter is_start_line (printed (handleButtons b ?s)) =
              filter is_start_line (printed ?s) @
              [StartingCycleLine (rpmSetting (potRPM_324 b)) (tempSetting (potTemp_325 b))
                 (startTime (potTime_326 b))]"
    if "systemState s = IDLE" "\<not> doorOpenWarningActive ?s" "lastStartState s = 1"
      "startPauseButton_308 b = 0" "\<not> (powerButton_294 b = 0 \<and> lastPowerState s = 1)"
  proof -
    have "\<not> (powerButton_294 b = 0 \<and> lastPowerState ?s = 1)"
      using that(5) by (simp add: rps_control)
    then show ?thesis
      using that(1-4) 3
      by (simp add: handleButtons_def handlePowerButton_no_press handleStartButton_printed
          rps_control filter_map o_def)
  qed
  from 1 2 3 4 5 show ?thesis by blast
qed

text \<open>Claim C9, an instance: the first poll after switching on, then a start press.\<close>

theorem load_at_overload_threshold_witness:
  "fsrAveraged (sensors LOAD_OVERLOAD 0) = LOAD_OVERLOAD \<and>
   shownTier (readAndProcessSensors (sensors LOAD_OVERLOAD 0) idle_machine) = Some Overload \<and>
   \<not> overloadWarningActive (readAndProcessSensors (sensors LOAD_OVERLOAD 0) idle_machine) \<and>
   systemState idle_machine = IDLE \<and>
   \<not> doorOpenWarningActive (readAndProcessSensors (sensors LOAD_OVERLOAD 0) idle_machine) \<and>
   lastStartState idle_machine = 1 \<and> startPauseButton_308 (buttons 1 0) = 0 \<and>
   powerButton_294 (buttons 1 0) = 1 \<and>
   filter is_start_line
     (printed (handleButtons (buttons 1 0)
        (readAndProcessSensors (sensors LOAD_OVERLOAD 0) idle_machine))) =
     [StartingCycleLine 500 40 30]"
proof -
  let ?r = "sensors LOAD_OVERLOAD 0"
  have h: "fsrAveraged ?r = LOAD_OVERLOAD" "systemState idle_machine = IDLE"
    "lastStartState idle_machine = 1" "startPauseButton_308 (buttons 1 0) = 0"
    "powerButton_294 (buttons 1 0) = 1"
    by (simp_all add: sensors_def buttons_def idle_machine_def initial_machine_def)
  have door: "\<not> doorOpenWarningActive (readAndProcessSensors ?r idle_machine)"
    by (simp add: rps_door rawDoor_never idle_machine_def initial_machine_def)
  have lines: "filter is_start_line (printed (readAndProcessSensors ?r idle_machine)) = []"
    by (simp add: rps_lines) (simp add: idle_machine_def initial_machine_def)
  have vals: "rpmSetting (potRPM_324 (buttons 1 0)) = 500"
    "tempSetting (potTemp_325 (buttons 1 0)) = 40" "startTime (potTime_326 (buttons 1 0)) = 30"
    by (simp_all add: buttons_def rpmSetting_def tempSetting_def startTime_def Let_def
        int_of_float_def roundf_def)
  from load_at_overload_threshold [OF h(1), of idle_machine "buttons 1 0"] h door lines vals
  show ?thesis by simp
qed

section \<open>Button edge detection\<close>

lemma presses_append:
  "presses l (xs @ ys) = presses l xs + presses (last (l # xs)) ys"
  by (induction xs arbitrary: l) simp_all

lemma presses_held: "presses 0 (replicate n 0) = 0"
  by (induction n) simp_all

lemma presses_released: "presses l (replicate n 1) = 0"
  by (induction n arbitrary: l) simp_all

lemma loop_body_power:
  "power_events (loop_body inp s) =
     power_events s + (if powerButton_294 (fst inp) = 0 \<and> lastPowerState s = 1 then 1 else 0)"
  "lastPowerState (loop_body inp s) =
     (if powerButton_303 (fst inp) = 1 then 1
      else if powerButton_294 (fst inp) = 0 \<and> lastPowerState s = 1 then 0
      else lastPowerState s)"
  "systemState (loop_body inp s) =
     (if powerButton_294 (fst inp) = 0 \<and> lastPowerState s = 1
      then (if systemState s = OFF then IDLE else OFF) else systemState s)"
proof -
  have "filter is_power_line (printed (loop_body inp s)) =
        filter is_power_line (printed (handleButtons (fst inp) s))"
    by (rule loop_body_lines) simp_all
  then show "power_events (loop_body inp s) =
     power_events s + (if powerButton_294 (fst inp) = 0 \<and> lastPowerState s = 1 then 1 else 0)"
    by (simp add: power_events_def handleButtons_def handleStartButton_printed
        handlePowerButton_printed filter_map o_def)
  show "lastPowerState (loop_body inp s) =
     (if powerButton_303 (fst inp) = 1 then 1
      else if powerButton_294 (fst inp) = 0 \<and> lastPowerState s = 1 then 0
      else lastPowerState s)"
    by (simp add: loop_body_fields handleButtons_fields handlePowerButton_fields)
  show "systemState (loop_body inp s) =
     (if powerButton_294 (fst inp) = 0 \<and> lastPowerState s = 1
      then (if systemState s = OFF then IDLE else OFF) else systemState s)"
    by (simp add: loop_body_fields handleButtons_fields handlePowerButton_fields)
qed

lemma loop_body_start:
  "start_events (loop_body inp s) =
     start_events s +
     (if startPauseButton_308 (fst inp) = 0 \<and> lastStartState s = 1 \<and>
         systemState (loop_body inp s) \<noteq> OFF then 1 else 0)"
  "lastStartState (loop_body inp s) =
     (if startPauseButton_346 (fst inp) = 1 then 1
      else if startPauseButton_308 (fst inp) = 0 \<and> lastStartState s = 1 \<and>
              systemState (loop_body inp s) \<noteq> OFF then 0
      else lastStartState s)"
proof -
  have st: "systemState (loop_body inp s) = systemState (handlePowerButton (fst inp) s)"
    by (simp add: loop_body_fields handleButtons_fields)
  have "filter is_start_line (printed (loop_body inp s)) =
        filter is_start_line (printed (handleButtons (fst inp) s))"
    by (rule loop_body_lines) simp_all
  then show "start_events (loop_body inp s) =
     start_events s +
     (if startPauseButton_308 (fst inp) = 0 \<and> lastStartState s = 1 \<and>
         systemState (loop_body inp s) \<noteq> OFF then 1 else 0)"
    unfolding st
    by (simp add: start_events_def handleButtons_def handleStartButton_printed
        handlePowerButton_printed handlePowerButton_fields(1) filter_map o_def)
  show "lastStartState (loop_body inp s) =
     (if startPauseButton_346 (fst inp) = 1 then 1
      else if startPauseButton_308 (fst inp) = 0 \<and> lastStartState s = 1 \<and>
              systemState (loop_body inp s) \<noteq> OFF then 0
      else lastStartState s)"
    unfolding st
    by (simp add: loop_body_fields handleButtons_def handleStartButton_fields
        handlePowerButton_fields(1))
qed

lemma loop_body_check:
  "systemState (loop_body inp s) = systemState (handlePowerButton (fst inp) s)"
  by (simp add: loop_body_fields handleButtons_fields)

lemma main_loop_power:
  assumes "\<forall>inp \<in> set inps. power_clean inp" and "lastPowerState s \<in> {0, 1}"
  shows "power_events (main_loop inps s) =
           power_events s + presses (lastPowerState s) (power_samples inps) \<and>
         lastPowerState (main_loop inps s) = last (lastPowerState s # power_samples inps)"
  using assms
proof (induction inps arbitrary: s rule: list.induct)
  case Nil
  then show ?case by (simp add: power_samples_def)
next
  case (Cons inp inps)
  let ?a = "powerButton_294 (fst inp)" and ?b = "powerButton_303 (fst inp)"
  from Cons.prems(1) have clean: "clean_reads ?a ?b"
    by (simp add: power_clean_def)
  from Cons.prems(2) have l01: "lastPowerState s = 0 \<or> lastPowerState s = 1" by simp
  have latch: "lastPowerState (loop_body inp s) = ?b"
    using clean l01 by (auto simp: loop_body_power clean_reads_def)
  have ev: "power_events (loop_body inp s) =
            power_events s + (if ?a = 0 \<and> lastPowerState s = 1 then 1 else 0)"
    by (simp add: loop_body_power)
  have samples: "power_samples (inp # inps) = ?a # ?b # power_samples inps"
    by (simp add: power_samples_def)
  have "lastPowerState (loop_body inp s) \<in> {0, 1}"
    using latch clean by (auto simp: clean_reads_def)
  with Cons.IH [of "loop_body inp s"] Cons.prems(1)
  have "power_events (main_loop inps (loop_body inp s)) =
          power_events (loop_body inp s) + presses ?b (power_samples inps)"
    and "lastPowerState (main_loop inps (loop_body inp s)) = last (?b # power_samples inps)"
    by (simp_all add: latch)
  then show ?case
    using clean l01 by (auto simp: samples ev clean_reads_def)
qed

lemma main_loop_start_on:
  assumes "\<forall>inp \<in> set inps. start_clean inp" and "lastStartState s \<in> {0, 1}"
    and "on_throughout inps s"
  shows "start_events (main_loop inps s) =
           start_events s + presses (lastStartState s) (start_samples inps) \<and>
         lastStartState (main_loop inps s) = last (lastStartState s # start_samples inps)"
  using assms
proof (induction inps arbitrary: s rule: list.induct)
  case Nil
  then show ?case by (simp add: start_samples_def)
next
  case (Cons inp inps)
  let ?a = "startPauseButton_308 (fst inp)" and ?b = "startPauseButton_346 (fst inp)"
  from Cons.prems(1) have clean: "clean_reads ?a ?b"
    by (simp add: start_clean_def)
  from Cons.prems(2) have l01: "lastStartState s = 0 \<or> lastStartState s = 1" by simp
  from Cons.prems(3) have on: "systemState (loop_body inp s) \<noteq> OFF"
    and rest: "on_throughout inps (loop_body inp s)"
    by (simp_all add: loop_body_check)
  have latch: "lastStartState (loop_body inp s) = ?b"
    using clean l01 on by (auto simp: loop_body_start clean_reads_def)
  have ev: "start_events (loop_body inp s) =
            start_events s + (if ?a = 0 \<and> lastStartState s = 1 then 1 else 0)"
    using on by (simp add: loop_body_start)
  have samples: "start_samples (inp # inps) = ?a # ?b # start_samples inps"
    by (simp add: start_samples_def)
  have "lastStartState (loop_body inp s) \<in> {0, 1}"
    using latch clean by (auto simp: clean_reads_def)
  with Cons.IH [of "loop_body inp s"] Cons.prems(1) rest
  have "start_events (main_loop inps (loop_body inp s)) =
          start_events (loop_body inp s) + presses ?b (start_samples inps)"
    and "lastStartState (main_loop inps (loop_body inp s)) = last (?b # start_samples inps)"
    by (simp_all add: latch)
  then show ?case
    using clean l01 by (auto simp: samples ev clean_reads_def)
qed

lemma main_loop_start_off:
  "off_throughout inps s \<Longrightarrow> start_events (main_loop inps s) = start_events s"
proof (induction inps arbitrary: s rule: list.induct)
  case Nil
  then show ?case by simp
next
  case (Cons inp inps)
  then have "systemState (loop_body inp s) = OFF" and "off_throughout inps (loop_body inp s)"
    by (simp_all add: loop_body_check)
  with Cons.IH [of "loop_body inp s"] show ?case
    by (simp add: loop_body_start)
qed

text \<open>
  Claim C4, amended. In every pass through the main loop, whatever is read: the power
  detector fires, exactly once, if and only if the read at line 294 is pressed (0) and
  \<open>lastPowerState\<close> is released (1); the start detector fires, exactly once, if and
  only if the read at line 308 is pressed, \<open>lastStartState\<close> is released and the system
  is not off at that check. The last level of a button becomes 1 when its second read
  is released, else 0 when the detector fired, and is otherwise unchanged.

  Over any number of passes in none of which a button is read released first and
  pressed second: the power detector fires exactly once per release-to-press
  transition of the sampled levels, and \<open>lastPowerState\<close> equals the latest sample
  after every pass, fired or not; the start detector does the same over passes in
  which the system is not off at the start check; over passes in which it is off
  there, the start detector produces no event. Hence a button held pressed for any
  number of samples after a released one gives exactly 1 event, and a release followed
  by a new press gives exactly 1 more.
\<close>

theorem button_edge_detectors:
  assumes "\<forall>inp \<in> set inps. power_clean inp" and "lastPowerState s \<in> {0, 1}"
    and "\<forall>inp \<in> set inps. start_clean inp" and "lastStartState s \<in> {0, 1}"
  shows "power_events (loop_body inp t) =
           power_events t +
           (if powerButton_294 (fst inp) = 0 \<and> lastPowerState t = 1 then 1 else 0) \<and>
         lastPowerState (loop_body inp t) =
           (if powerButton_303 (fst inp) = 1 then 1
            else if powerButton_294 (fst inp) = 0 \<and> lastPowerState t = 1 then 0
            else lastPowerState t) \<and>
         start_events (loop_body inp t) =
           start_events t +
           (if startPauseButton_308 (fst inp) = 0 \<and> lastStartState t = 1 \<and>
               systemState (handlePowerButton (fst inp) t) \<noteq> OFF then 1 else 0) \<and>
         lastStartState (loop_body inp t) =
           (if startPauseButton_346 (fst inp) = 1 then 1
            else if startPauseButton_308 (fst inp) = 0 \<and> lastStartState t = 1 \<and>
                    systemState (handlePowerButton (fst inp) t) \<noteq> OFF then 0
            else lastStartState t) \<and>
         power_events (main_loop inps s) =
           power_events s + presses (lastPowerState s) (power_samples inps) \<and>
         lastPowerState (main_loop inps s) = last (lastPowerState s # power_samples inps) \<and>
         (on_throughout inps s \<longrightarrow>
            start_events (main_loop inps s) =
              start_events s + presses (lastStartState s) (start_samples inps) \<and>
            lastStartState (main_loop inps s) = last (lastStartState s # start_samples inps)) \<and>
         (off_throughout inps s \<longrightarrow> start_events (main_loop inps s) = start_events s) \<and>
         presses 1 (replicate (Suc n) 0) = 1 \<and>
         presses 1 (replicate (Suc n) 0 @ replicate (Suc j) 1 @ replicate (Suc k) 0) = 2"
proof -
  have held: "presses 1 (replicate (Suc n) 0) = 1"
    by (simp add: presses_held)
  have again: "presses 1 (replicate (Suc n) 0 @ replicate (Suc j) 1 @ replicate (Suc k) 0) = 2"
    by (simp add: presses_append presses_held presses_released del: replicate_Suc)
       (simp add: presses_held presses_released)
  have pass: "power_events (loop_body inp t) =
           power_events t +
           (if powerButton_294 (fst inp) = 0 \<and> lastPowerState t = 1 then 1 else 0)"
    "lastPowerState (loop_body inp t) =
           (if powerButton_303 (fst inp) = 1 then 1
            else if powerButton_294 (fst inp) = 0 \<and> lastPowerState t = 1 then 0
            else lastPowerState t)"
    "start_events (loop_body inp t) =
           start_events t +
           (if startPauseButton_308 (fst inp) = 0 \<and> lastStartState t = 1 \<and>
               systemState (handlePowerButton (fst inp) t) \<noteq> OFF then 1 else 0)"
    "lastStartState (loop_body inp t) =
           (if startPauseButton_346 (fst inp) = 1 then 1
            else if startPauseButton_308 (fst inp) = 0 \<and> lastStartState t = 1 \<and>
                    systemState (handlePowerButton (fst inp) t) \<noteq> OFF then 0
            else lastStartState t)"
    by (simp_all add: loop_body_power(1,2) loop_body_start loop_body_check)
  show ?thesis
    using main_loop_power [OF assms(1,2)] main_loop_start_on [OF assms(3,4)]
      main_loop_start_off [of inps s] held again pass
    by blast
qed

text \<open>
  Claim C4, two instances. Idle: start tapped within one pass, held for the next,
  released, pressed again gives three start events and no power event. Off with both
  buttons last seen released: a pass with both pressed switches on and gives one
  power event and one start event.
\<close>

theorem button_edge_detectors_witness:
  "list_all power_clean
     [(buttons 1 0\<lparr>startPauseButton_346 := 1\<rparr>, sensors 0 0), (buttons 1 0, sensors 0 0),
      (buttons 1 1, sensors 0 0), (buttons 1 0, sensors 0 0)] \<and>
   list_all start_clean
     [(buttons 1 0\<lparr>startPauseButton_346 := 1\<rparr>, sensors 0 0), (buttons 1 0, sensors 0 0),
      (buttons 1 1, sensors 0 0), (buttons 1 0, sensors 0 0)] \<and>
   lastPowerState idle_machine = 1 \<and> lastStartState idle_machine = 1 \<and>
   on_throughout [(buttons 1 0\<lparr>startPauseButton_346 := 1\<rparr>, sensors 0 0),
                  (buttons 1 0, sensors 0 0), (buttons 1 1, sensors 0 0),
                  (buttons 1 0, sensors 0 0)] idle_machine \<and>
   start_samples [(buttons 1 0\<lparr>startPauseButton_346 := 1\<rparr>, sensors 0 0),
                  (buttons 1 0, sensors 0 0), (buttons 1 1, sensors 0 0),
                  (buttons 1 0, sensors 0 0)] = [0, 1, 0, 0, 1, 1, 0, 0] \<and>
   power_events
     (main_loop [(buttons 1 0\<lparr>startPauseButton_346 := 1\<rparr>, sensors 0 0),
                 (buttons 1 0, sensors 0 0), (buttons 1 1, sensors 0 0),
                 (buttons 1 0, sensors 0 0)] idle_machine) = 0 \<and>
   start_events
     (main_loop [(buttons 1 0\<lparr>startPauseButton_346 := 1\<rparr>, sensors 0 0),
                 (buttons 1 0, sensors 0 0), (buttons 1 1, sensors 0 0),
                 (buttons 1 0, sensors 0 0)] idle_machine) = 3 \<and>
   lastStartState
     (main_loop [(buttons 1 0\<lparr>startPauseButton_346 := 1\<rparr>, sensors 0 0),
                 (buttons 1 0, sensors 0 0), (buttons 1 1, sensors 0 0),
                 (buttons 1 0, sensors 0 0)] idle_machine) = 0 \<and>
   on_throughout [(buttons 0 0, sensors 0 0)]
     (initial_machine\<lparr>lastPowerState := 1, lastStartState := 1\<rparr>) \<and>
   power_events
     (main_loop [(buttons 0 0, sensors 0 0)]
        (initial_machine\<lparr>lastPowerState := 1, lastStartState := 1\<rparr>)) = 1 \<and>
   start_events
     (main_loop [(buttons 0 0, sensors 0 0)]
        (initial_machine\<lparr>lastPowerState := 1, lastStartState := 1\<rparr>)) = 1"
proof -
  let ?inps = "[(buttons 1 0\<lparr>startPauseButton_346 := 1\<rparr>, sensors 0 0),
                (buttons 1 0, sensors 0 0), (buttons 1 1, sensors 0 0),
                (buttons 1 0, sensors 0 0)]"
  let ?s = "initial_machine\<lparr>lastPowerState := 1, lastStartState := 1\<rparr>"
  have p: "\<forall>inp \<in> set ?inps. power_clean inp" and q: "\<forall>inp \<in> set ?inps. start_clean inp"
    and p': "\<forall>inp \<in> set [(buttons 0 0, sensors 0 0)]. power_clean inp"
    and q': "\<forall>inp \<in> set [(buttons 0 0, sensors 0 0)]. start_clean inp"
    by (simp_all add: power_clean_def start_clean_def clean_reads_def buttons_def)
  have s: "lastPowerState idle_machine \<in> {0, 1}" "lastStartState idle_machine \<in> {0, 1}"
    "lastPowerState idle_machine = 1" "lastStartState idle_machine = 1"
    "power_events idle_machine = 0" "start_events idle_machine = 0"
    "lastPowerState ?s \<in> {0, 1}" "lastStartState ?s \<in> {0, 1}"
    "power_events ?s = 0" "start_events ?s = 0"
    by (simp_all add: idle_machine_def initial_machine_def power_events_def start_events_def)
  have on: "on_throughout ?inps idle_machine"
    by (simp add: handlePowerButton_fields loop_body_power buttons_def)
       (simp add: idle_machine_def initial_machine_def)
  have on': "on_throughout [(buttons 0 0, sensors 0 0)] ?s"
    by (simp add: handlePowerButton_fields buttons_def initial_machine_def)
  have samples: "start_samples ?inps = [0, 1, 0, 0, 1, 1, 0, 0]"
    "power_samples ?inps = [1, 1, 1, 1, 1, 1, 1, 1]"
    "start_samples [(buttons 0 0, sensors 0 0)] = [0, 0]"
    "power_samples [(buttons 0 0, sensors 0 0)] = [0, 0]"
    by (simp_all add: start_samples_def power_samples_def buttons_def)
  note run = button_edge_detectors [OF p s(1) q s(2),
      where inp = "(buttons 1 1, sensors 0 0)" and t = idle_machine and n = 0 and j = 0 and k = 0]
  note power_on = button_edge_detectors [OF p' s(7) q' s(8),
      where inp = "(buttons 1 1, sensors 0 0)" and t = idle_machine and n = 0 and j = 0 and k = 0]
  have a: "power_events (main_loop ?inps idle_machine) =
      power_events idle_machine + presses (lastPowerState idle_machine) (power_samples ?inps)"
    using run by blast
  have b: "start_events (main_loop ?inps idle_machine) =
      start_events idle_machine + presses (lastStartState idle_machine) (start_samples ?inps)"
    "lastStartState (main_loop ?inps idle_machine) =
      last (lastStartState idle_machine # start_samples ?inps)"
    using run on by blast+
  have c: "power_events (main_loop [(buttons 0 0, sensors 0 0)] ?s) =
      power_events ?s + presses (lastPowerState ?s) (power_samples [(buttons 0 0, sensors 0 0)])"
    using power_on by blast
  have d: "start_events (main_loop [(buttons 0 0, sensors 0 0)] ?s) =
      start_events ?s + presses (lastStartState ?s) (start_samples [(buttons 0 0, sensors 0 0)])"
    using power_on on' by blast
  have vals: "lastPowerState ?s = 1" "lastStartState ?s = 1"
    by simp_all
  show ?thesis
    unfolding a b c d samples s(3,4,5,6,9,10) vals
    using p q on on' samples(1) by simp
qed

text \<open>
  Claim C4 as stated covers the start button in every state and every timing of the
  reads. From start-up (system off), a pass with the start button released followed by
  a pass with it pressed produces no start event, and \<open>lastStartState\<close> is still 1
  although the current level is 0. And a power button read released at line 294 and
  pressed at line 303, then held, is a release-to-press transition that produces no
  power event.
\<close>

theorem press_without_event:
  "start_samples [(buttons 1 1, sensors 0 0), (buttons 1 0, sensors 0 0)] = [1, 1, 0, 0] \<and>
   start_events (main [(buttons 1 1, sensors 0 0), (buttons 1 0, sensors 0 0)]) = 0 \<and>
   lastStartState (main [(buttons 1 1, sensors 0 0), (buttons 1 0, sensors 0 0)]) = 1 \<and>
   power_samples [(buttons 1 1\<lparr>powerButton_303 := 0\<rparr>, sensors 0 0),
                  (buttons 0 1, sensors 0 0)] = [1, 0, 0, 0] \<and>
   power_events (main [(buttons 1 1\<lparr>powerButton_303 := 0\<rparr>, sensors 0 0),
                       (buttons 0 1, sensors 0 0)]) = 0"
proof -
  let ?s0 = "main_init initial_machine"
  let ?s1 = "loop_body (buttons 1 1, sensors 0 0) ?s0"
  let ?s2 = "loop_body (buttons 1 0, sensors 0 0) ?s1"
  let ?t1 = "loop_body (buttons 1 1\<lparr>powerButton_303 := 0\<rparr>, sensors 0 0) ?s0"
  let ?t2 = "loop_body (buttons 0 1, sensors 0 0) ?t1"
  have s0: "systemState ?s0 = OFF" "lastPowerState ?s0 = 0" "lastStartState ?s0 = 0"
    "start_events ?s0 = 0" "power_events ?s0 = 0"
    by (simp_all add: main_init_fields start_events_def power_events_def)
       (simp_all add: initial_machine_def)
  have s1: "systemState ?s1 = OFF" "lastPowerState ?s1 = 1" "lastStartState ?s1 = 1"
    "start_events ?s1 = 0"
    by (simp_all add: loop_body_power loop_body_start s0 buttons_def)
  have s2: "start_events ?s2 = 0" "lastStartState ?s2 = 1"
    by (simp_all add: loop_body_power loop_body_start s0 s1 buttons_def)
  have t1: "lastPowerState ?t1 = 0" "power_events ?t1 = 0"
    by (simp_all add: loop_body_power s0 buttons_def)
  have t2: "power_events ?t2 = 0"
    by (simp add: loop_body_power s0 t1 buttons_def)
  have "main [(buttons 1 1, sensors 0 0), (buttons 1 0, sensors 0 0)] = ?s2"
    "main [(buttons 1 1\<lparr>powerButton_303 := 0\<rparr>, sensors 0 0), (buttons 0 1, sensors 0 0)] = ?t2"
    by (simp_all add: main_def)
  with s2 t2 show ?thesis
    by (simp add: start_samples_def power_samples_def buttons_def)
qed

end
